theory Spec2Isabelle
  imports Main
begin

section \<open>Python values used by the scraper\<close>

text \<open>
  A Python \<^verbatim>\<open>str\<close> is a sequence of Unicode code points; it is modelled as a list of
  natural numbers. ASCII literals of the source are written \<open>lit ''...''\<close>.

  The builtins \<^verbatim>\<open>str.strip\<close>, \<^verbatim>\<open>str.split\<close>, \<^verbatim>\<open>str.rfind\<close>, slicing and
  \<^verbatim>\<open>str.translate\<close> are modelled for every code point. So are \<^verbatim>\<open>str.isdigit\<close> and
  \<^verbatim>\<open>int\<close>, with the digit tables of Unicode 14.0.0 (the character database of
  Python 3.11) written out. \<^verbatim>\<open>str.lower\<close> is modelled exactly for U+0000 .. U+00FF;
  above U+00FF \<open>lower_cp\<close> is the identity.
\<close>

type_synonym codepoint = nat
type_synonym pystr = "codepoint list"

definition lit :: "string \<Rightarrow> pystr" where
  "lit s = map of_char s"

datatype error = IndexError | ValueError | AttributeError | TypeError | KeyError

text \<open>The code points \<^verbatim>\<open>str.strip()\<close> removes (\<^verbatim>\<open>str.isspace\<close>).\<close>

definition isspace :: "codepoint \<Rightarrow> bool" where
  "isspace c \<longleftrightarrow>
     (9 \<le> c \<and> c \<le> 13) \<or> (28 \<le> c \<and> c \<le> 32) \<or> c = 133 \<or> c = 160 \<or> c = 5760 \<or>
     (8192 \<le> c \<and> c \<le> 8202) \<or> c = 8232 \<or> c = 8233 \<or> c = 8239 \<or> c = 8287 \<or> c = 12288"

definition lstrip :: "pystr \<Rightarrow> pystr" where
  "lstrip s = dropWhile isspace s"

definition rstrip :: "pystr \<Rightarrow> pystr" where
  "rstrip s = rev (dropWhile isspace (rev s))"

definition strip :: "pystr \<Rightarrow> pystr" where
  "strip s = rstrip (lstrip s)"

text \<open>\<^verbatim>\<open>str.lower()\<close>: ASCII and Latin-1 capitals move up by 32.\<close>

definition lower_cp :: "codepoint \<Rightarrow> codepoint" where
  "lower_cp c = (if (65 \<le> c \<and> c \<le> 90) \<or> (192 \<le> c \<and> c \<le> 222 \<and> c \<noteq> 215) then c + 32 else c)"

definition lower :: "pystr \<Rightarrow> pystr" where
  "lower s = map lower_cp s"

definition startswith :: "pystr \<Rightarrow> pystr \<Rightarrow> bool" where
  "startswith s p \<longleftrightarrow> take (length p) s = p"

text \<open>\<^verbatim>\<open>p in s\<close> for strings: \<open>p\<close> occurs in \<open>s\<close> as a contiguous substring.\<close>

fun contains :: "pystr \<Rightarrow> pystr \<Rightarrow> bool" where
  "contains [] p = (p = [])"
| "contains (c # cs) p = (startswith (c # cs) p \<or> contains cs p)"

text \<open>\<^verbatim>\<open>s.split(sep)\<close> for a separator of one character: every occurrence cuts.\<close>

fun split_chr :: "codepoint \<Rightarrow> pystr \<Rightarrow> pystr list" where
  "split_chr sep [] = [[]]"
| "split_chr sep (c # cs) =
     (if c = sep then [] # split_chr sep cs
      else (c # hd (split_chr sep cs)) # tl (split_chr sep cs))"

text \<open>\<^verbatim>\<open>s.split(sep, maxsplit=1)\<close> for a separator of one character: only the first
  occurrence cuts.\<close>

definition split1 :: "codepoint \<Rightarrow> pystr \<Rightarrow> pystr list" where
  "split1 sep s =
     (if sep \<in> set s then [takeWhile (\<lambda>c. c \<noteq> sep) s, tl (dropWhile (\<lambda>c. c \<noteq> sep) s)]
      else [s])"

text \<open>\<^verbatim>\<open>s.split(sep)\<close> for a non-empty separator string. \<open>skip\<close> counts the characters
  of a separator just matched that are still to be passed over; \<open>acc\<close> is the piece being
  read, reversed.\<close>

fun split_go :: "pystr \<Rightarrow> nat \<Rightarrow> pystr \<Rightarrow> pystr \<Rightarrow> pystr list" where
  "split_go sep skip acc [] = [rev acc]"
| "split_go sep skip acc (c # cs) =
     (if 0 < skip then split_go sep (skip - 1) acc cs
      else if startswith (c # cs) sep then rev acc # split_go sep (length sep - 1) [] cs
      else split_go sep 0 (c # acc) cs)"

definition split_str :: "pystr \<Rightarrow> pystr \<Rightarrow> pystr list" where
  "split_str sep s = split_go sep 0 [] s"

text \<open>\<^verbatim>\<open>s.rfind(c)\<close>: the highest index of \<open>c\<close> in \<open>s\<close>, or \<open>-1\<close>.\<close>

definition rfind :: "pystr \<Rightarrow> codepoint \<Rightarrow> int" where
  "rfind s c =
     (if c \<in> set s then int (length s) - 1 - int (length (takeWhile (\<lambda>x. x \<noteq> c) (rev s)))
      else - 1)"

text \<open>\<^verbatim>\<open>xs[i:j]\<close>: a negative bound counts from the end, and both bounds are clamped
  to the list, so a slice never raises.\<close>

definition slice :: "'a list \<Rightarrow> int \<Rightarrow> int \<Rightarrow> 'a list" where
  "slice xs i j =
     (let n = int (length xs);
          lo = (if i < 0 then max (i + n) 0 else min i n);
          hi = (if j < 0 then max (j + n) 0 else min j n)
      in take (nat (hi - lo)) (drop (nat lo) xs))"

text \<open>The decimal digits (general category Nd) come in runs of ten consecutive code
  points with the values 0 to 9; \<open>decimal_zeros\<close> lists the first code point of each
  run.\<close>

definition decimal_zeros :: "codepoint list" where
  "decimal_zeros =
     [48, 1632, 1776, 1984, 2406, 2534, 2662, 2790, 2918, 3046, 3174, 3302, 3430, 3558,
      3664, 3792, 3872, 4160, 4240, 6112, 6160, 6470, 6608, 6784, 6800, 6992, 7088, 7232,
      7248, 42528, 43216, 43264, 43472, 43504, 43600, 44016, 65296, 66720, 68912, 69734,
      69872, 69942, 70096, 70384, 70736, 70864, 71248, 71360, 71472, 71904, 72016, 72784,
      73040, 73120, 92768, 92864, 93008, 120782, 120792, 120802, 120812, 120822, 123200,
      123632, 125264, 130032]"

definition decimal_value :: "codepoint \<Rightarrow> nat option" where
  "decimal_value c =
     (case find (\<lambda>z. z \<le> c \<and> c \<le> z + 9) decimal_zeros of
        None \<Rightarrow> None
      | Some z \<Rightarrow> Some (c - z))"

definition isdecimal :: "codepoint \<Rightarrow> bool" where
  "isdecimal c \<longleftrightarrow> decimal_value c \<noteq> None"

text \<open>The digits that are not decimal digits (superscripts, subscripts, circled digits
  and the like), as inclusive ranges. \<^verbatim>\<open>c.isdigit()\<close> holds for both kinds; \<^verbatim>\<open>int\<close>
  reads only the decimal digits.\<close>

definition other_digits :: "(codepoint \<times> codepoint) list" where
  "other_digits =
     [(178, 179), (185, 185), (4969, 4977), (6618, 6618), (8304, 8304), (8308, 8313),
      (8320, 8329), (9312, 9320), (9332, 9340), (9352, 9360), (9450, 9450), (9461, 9469),
      (9471, 9471), (10102, 10110), (10112, 10120), (10122, 10130), (68160, 68163),
      (69216, 69224), (69714, 69722), (127232, 127242)]"

definition isdigit :: "codepoint \<Rightarrow> bool" where
  "isdigit c \<longleftrightarrow> isdecimal c \<or> list_ex (\<lambda>(lo, hi). lo \<le> c \<and> c \<le> hi) other_digits"

text \<open>The whitespace \<^verbatim>\<open>int\<close> drops around a literal: that of \<^verbatim>\<open>str.strip\<close> but for
  the four separators U+001C .. U+001F.\<close>

definition int_isspace :: "codepoint \<Rightarrow> bool" where
  "int_isspace c \<longleftrightarrow> isspace c \<and> \<not> (28 \<le> c \<and> c \<le> 31)"

definition int_strip :: "pystr \<Rightarrow> pystr" where
  "int_strip s = rev (dropWhile int_isspace (rev (dropWhile int_isspace s)))"

text \<open>The digits of an \<^verbatim>\<open>int\<close> literal: decimal digits, single underscores allowed
  between two digits. \<open>prev\<close> says that the previous character was a digit.\<close>

fun int_digits :: "bool \<Rightarrow> nat \<Rightarrow> pystr \<Rightarrow> nat option" where
  "int_digits prev acc [] = (if prev then Some acc else None)"
| "int_digits prev acc (c # cs) =
     (case decimal_value c of
        Some d \<Rightarrow> int_digits True (10 * acc + d) cs
      | None \<Rightarrow> if c = 95 \<and> prev then int_digits False acc cs else None)"

text \<open>The default of \<^verbatim>\<open>sys.int_max_str_digits\<close>: a literal with more digits raises
  \<^verbatim>\<open>ValueError\<close>.\<close>

definition int_max_str_digits :: nat where
  "int_max_str_digits = 4300"

text \<open>\<^verbatim>\<open>int(s)\<close>: surrounding whitespace is dropped, one sign is allowed, anything that
  is not a literal of at most \<open>int_max_str_digits\<close> digits raises \<^verbatim>\<open>ValueError\<close>.\<close>

definition py_int :: "pystr \<Rightarrow> error + int" where
  "py_int s =
     (let t = int_strip s;
          (neg, ds) = (case t of [] \<Rightarrow> (False, [])
                       | c # cs \<Rightarrow> if c = 45 then (True, cs) else if c = 43 then (False, cs) else (False, t))
      in if int_max_str_digits < length (filter isdecimal ds) then Inl ValueError
         else case int_digits False 0 ds of
                None \<Rightarrow> Inl ValueError
              | Some n \<Rightarrow> Inr (if neg then - int n else int n))"

section \<open>Header parser and course level\<close>

text \<open>
  The first lines of \<^verbatim>\<open>reprocess_course\<close> (reprocess.py) and of \<^verbatim>\<open>get_course_info\<close>
  (main.py) are the same code: split the header at the first hyphen, strip both parts,
  and cut the second part at the last parentheses with \<^verbatim>\<open>rfind\<close> and two slices.
  \<^verbatim>\<open>header_parts[1]\<close> raises \<^verbatim>\<open>IndexError\<close> when the header has no hyphen; nothing
  else in these lines raises. The result is \<open>(course_code, title, units)\<close>.
\<close>

definition parse_header :: "pystr \<Rightarrow> error + (pystr \<times> pystr \<times> pystr)" where
  "parse_header header =
     (let header_parts = split1 45 header in
      if length header_parts < 2 then Inl IndexError
      else
        let course_code = strip (header_parts ! 0);
            title_units = strip (header_parts ! 1);
            units = slice title_units (rfind title_units 40 + 1) (rfind title_units 41);
            title = strip (slice title_units 0 (rfind title_units 40))
        in Inr (course_code, title, units))"

text \<open>The loop that collects the leading digits of the course number.\<close>

fun level_str_loop :: "pystr \<Rightarrow> pystr \<Rightarrow> pystr" where
  "level_str_loop level_str [] = level_str"
| "level_str_loop level_str (char # rest) =
     (if isdigit char then level_str_loop (level_str @ [char]) rest else level_str)"

definition course_level :: "pystr \<Rightarrow> error + int" where
  "course_level course_code =
     (let toks = split_chr 32 course_code in
      if length toks < 2 then Inl IndexError
      else py_int (level_str_loop [] (toks ! 1)))"

section \<open>Text normalizer (modules/util.py)\<close>

text \<open>\<^verbatim>\<open>REPLACE_CHAR_MAP\<close>, in the order of the source; the keys are pairwise different,
  so the dictionary is this association list.\<close>

definition REPLACE_CHAR_MAP :: "(codepoint \<times> pystr) list" where
  "REPLACE_CHAR_MAP =
     [(0xa0, lit '' ''), (0xa9, lit ''(c)''), (0xae, lit ''(r)''), (0xbf, lit ''?''),
      (0xc1, lit ''A''), (0xcd, lit ''I''), (0xe9, lit ''e''), (0xf1, lit ''n''),
      (0x2013, lit ''-''), (0x2019, [39]), (0x201c, [34]), (0x201d, [34])]"

text \<open>\<^verbatim>\<open>text.translate(TRANSLATION_TABLE)\<close>: a key is replaced by its target, any other
  character stays.\<close>

definition translate :: "pystr \<Rightarrow> pystr" where
  "translate text =
     concat (map (\<lambda>c. case map_of REPLACE_CHAR_MAP c of Some t \<Rightarrow> t | None \<Rightarrow> [c]) text)"

text \<open>The set \<^verbatim>\<open>unknown_chars\<close>, as the list of its elements without repetition.\<close>

definition unknown_chars :: "pystr \<Rightarrow> codepoint list" where
  "unknown_chars text =
     remdups (filter (\<lambda>char. 127 < char \<and> map_of REPLACE_CHAR_MAP char = None) text)"

text \<open>\<^verbatim>\<open>clean_text\<close> prints one line for each element of \<^verbatim>\<open>sorted(unknown_chars, key=ord)\<close>
  (after a heading, when there is one at least) and returns the translated text. A line
  shows the code point, the character and its name, all three determined by the code
  point; the model returns the code points of the printed lines, in the order printed,
  with the text.\<close>

definition clean_text :: "pystr \<Rightarrow> codepoint list \<times> pystr" where
  "clean_text text = (sort (unknown_chars text), translate text)"

section \<open>Block segmenter\<close>

text \<open>A sibling node after the separator: a \<^verbatim>\<open>br\<close> tag, or any other node with its
  \<^verbatim>\<open>.text\<close>. The list holds the siblings the \<^verbatim>\<open>while sibling:\<close> loop visits.\<close>

datatype node = Br | Other pystr

text \<open>The loop of \<^verbatim>\<open>get_course_info\<close>, with its two variables \<^verbatim>\<open>blocks\<close> and
  \<^verbatim>\<open>current_block\<close>, and the code after it. scrape.py passes a finished block through
  \<^verbatim>\<open>clean_text\<close> before appending it, main.py appends it as it is: \<open>clean\<close> stands for
  that step.\<close>

fun segment_loop :: "(pystr \<Rightarrow> pystr) \<Rightarrow> pystr list \<Rightarrow> pystr \<Rightarrow> node list \<Rightarrow> pystr list" where
  "segment_loop clean blocks current_block [] =
     (if strip current_block \<noteq> [] then blocks @ [clean (strip current_block)] else blocks)"
| "segment_loop clean blocks current_block (Br # siblings) =
     (if strip current_block \<noteq> []
      then segment_loop clean (blocks @ [clean (strip current_block)]) [] siblings
      else segment_loop clean blocks current_block siblings)"
| "segment_loop clean blocks current_block (Other t # siblings) =
     (let text = strip t in
      if text \<noteq> [] then segment_loop clean blocks (current_block @ 32 # text) siblings
      else segment_loop clean blocks current_block siblings)"

definition main_segment :: "node list \<Rightarrow> pystr list" where
  "main_segment siblings = segment_loop (\<lambda>b. b) [] [] siblings"

definition scrape_segment :: "node list \<Rightarrow> pystr list" where
  "scrape_segment siblings = segment_loop (\<lambda>b. snd (clean_text b)) [] [] siblings"

text \<open>The words of the specification: the visible text of the siblings is their
  non-empty trimmed texts, joined by single spaces.\<close>

fun node_text :: "node \<Rightarrow> pystr" where
  "node_text Br = []"
| "node_text (Other t) = t"

definition visible_texts :: "node list \<Rightarrow> pystr list" where
  "visible_texts siblings = filter (\<lambda>t. t \<noteq> []) (map (\<lambda>n. strip (node_text n)) siblings)"

fun space_join :: "pystr list \<Rightarrow> pystr" where
  "space_join [] = []"
| "space_join [t] = t"
| "space_join (t # u # ts) = t @ 32 # space_join (u # ts)"

text \<open>The buffer after the siblings of a fragment with no line break.\<close>

definition spaced :: "pystr list \<Rightarrow> pystr" where
  "spaced ts = concat (map (\<lambda>t. 32 # t) ts)"

section \<open>Records (models/courses.py) and the field classifier\<close>

record raw_course =
  rc_course_id :: int
  rc_department :: pystr
  rc_header :: pystr
  rc_blocks :: "pystr list"

record processed_course =
  pc_course_id :: int
  pc_department :: pystr
  pc_course_level :: int
  pc_title :: pystr
  pc_description :: pystr
  pc_course_code :: pystr
  pc_units :: pystr
  pc_prerequisites :: pystr
  pc_grad_credit :: bool
  pc_available_online :: bool
  pc_requires_dept_consent :: bool
  pc_typically_offered :: pystr

text \<open>The dictionary main.py builds: the keys after \<^verbatim>\<open>units\<close> are present only once
  assigned.\<close>

record main_course =
  mc_title :: pystr
  mc_description :: pystr
  mc_department :: pystr
  mc_course_code :: pystr
  mc_course_id :: int
  mc_units :: pystr
  mc_prereqs :: "pystr option"
  mc_grad_credit :: "bool option"
  mc_available_online :: "bool option"
  mc_requires_dept_consent :: "bool option"
  mc_typically_offered :: "pystr option"
  mc_course_level :: "int option"

text \<open>A \<^verbatim>\<open>for\<close> loop whose body may raise: the first exception ends the loop.\<close>

fun for_each :: "('s \<Rightarrow> 'a \<Rightarrow> error + 's) \<Rightarrow> 's \<Rightarrow> 'a list \<Rightarrow> error + 's" where
  "for_each body s [] = Inr s"
| "for_each body s (x # xs) =
     (case body s x of Inl e \<Rightarrow> Inl e | Inr s' \<Rightarrow> for_each body s' xs)"

text \<open>The body of the loop over \<^verbatim>\<open>course["blocks"][1:]\<close> in reprocess.py. The state is
  the record under construction and the lines printed so far.\<close>

definition reprocess_block ::
  "pystr \<Rightarrow> processed_course \<times> pystr list \<Rightarrow> pystr \<Rightarrow> error + processed_course \<times> pystr list" where
  "reprocess_block course_code st block =
     (let (processed_course, out) = st in
      if contains (lower block) (lit ''requisite'') \<or> startswith (lower block) (lit ''prereq'')
      then Inr (processed_course\<lparr>pc_prerequisites := block\<rparr>, out)
      else if lower block = lit ''undergraduate course not available for graduate credit''
      then Inr (processed_course\<lparr>pc_grad_credit := False\<rparr>, out)
      else if lower block \<in> set [lit ''graduate-level'',
                lit ''400-level undergraduate course available for graduate credit'']
      then Inr (processed_course\<lparr>pc_grad_credit := True\<rparr>, out)
      else if lower block = lit ''one or more sections may be offered in any online format.''
      then Inr (processed_course\<lparr>pc_available_online := True\<rparr>, out)
      else if lower block = lit ''department consent required''
      then Inr (processed_course\<lparr>pc_requires_dept_consent := True\<rparr>, out)
      else if startswith (lower block) (lit ''typically offered'')
      then (let pieces = split_chr 58 block in
            if length pieces < 2 then Inl IndexError
            else Inr (processed_course\<lparr>pc_typically_offered := strip (pieces ! 1)\<rparr>, out))
      else Inr (processed_course, out @ [lit ''Unknown block in '' @ course_code @ lit '': '' @ block]))"

text \<open>The body of the loop over \<^verbatim>\<open>blocks[1:]\<close> in main.py.\<close>

definition main_block ::
  "pystr \<Rightarrow> main_course \<times> pystr list \<Rightarrow> pystr \<Rightarrow> error + main_course \<times> pystr list" where
  "main_block course_code st block =
     (let (course, out) = st in
      if contains (lower block) (lit ''requisite'') \<or> startswith (lower block) (lit ''prereq'')
      then Inr (course\<lparr>mc_prereqs := Some block\<rparr>, out)
      else if lower block = lit ''undergraduate course not available for graduate credit''
      then Inr (course\<lparr>mc_grad_credit := Some False\<rparr>, out)
      else if lower block \<in> set [lit ''graduate-level'',
                lit ''400-level undergraduate course available for graduate credit'']
      then Inr (course\<lparr>mc_grad_credit := Some True\<rparr>, out)
      else if lower block = lit ''one or more sections may be offered in any online format.''
      then Inr (course\<lparr>mc_available_online := Some True\<rparr>, out)
      else if lower block = lit ''department consent required''
      then Inr (course\<lparr>mc_requires_dept_consent := Some True\<rparr>, out)
      else if startswith (lower block) (lit ''typically offered:'')
      then (let pieces = split_chr 58 block in
            if length pieces < 2 then Inl IndexError
            else Inr (course\<lparr>mc_typically_offered := Some (strip (pieces ! 1))\<rparr>, out))
      else Inr (course, out @ [lit ''unknown block in '' @ course_code @ lit '': '' @ block]))"

text \<open>\<^verbatim>\<open>reprocess_course\<close>: header, level, the record with its defaults (where
  \<^verbatim>\<open>course["blocks"][0]\<close> raises \<^verbatim>\<open>IndexError\<close> on an empty list), then the loop.\<close>

definition reprocess_course :: "raw_course \<Rightarrow> error + processed_course \<times> pystr list" where
  "reprocess_course course =
     (case parse_header (rc_header course) of
        Inl e \<Rightarrow> Inl e
      | Inr (course_code, title, units) \<Rightarrow>
          (case course_level course_code of
             Inl e \<Rightarrow> Inl e
           | Inr level \<Rightarrow>
               (case rc_blocks course of
                  [] \<Rightarrow> Inl IndexError
                | description # rest \<Rightarrow>
                    for_each (reprocess_block course_code)
                      (\<lparr>pc_course_id = rc_course_id course,
                        pc_department = rc_department course,
                        pc_course_level = level,
                        pc_title = title,
                        pc_description = description,
                        pc_course_code = course_code,
                        pc_units = units,
                        pc_prerequisites = [],
                        pc_grad_credit = False,
                        pc_available_online = False,
                        pc_requires_dept_consent = False,
                        pc_typically_offered = []\<rparr>, [])
                      rest)))"

text \<open>The fields the two classifiers assign, with a key absent from main.py's dictionary
  read as the default of reprocess.py.\<close>

definition main_fields :: "main_course \<Rightarrow> pystr \<times> bool \<times> bool \<times> bool \<times> pystr" where
  "main_fields c =
     (case mc_prereqs c of None \<Rightarrow> [] | Some p \<Rightarrow> p,
      case mc_grad_credit c of None \<Rightarrow> False | Some b \<Rightarrow> b,
      case mc_available_online c of None \<Rightarrow> False | Some b \<Rightarrow> b,
      case mc_requires_dept_consent c of None \<Rightarrow> False | Some b \<Rightarrow> b,
      case mc_typically_offered c of None \<Rightarrow> [] | Some t \<Rightarrow> t)"

definition processed_fields :: "processed_course \<Rightarrow> pystr \<times> bool \<times> bool \<times> bool \<times> pystr" where
  "processed_fields p =
     (pc_prerequisites p, pc_grad_credit p, pc_available_online p,
      pc_requires_dept_consent p, pc_typically_offered p)"

section \<open>Pages: \<^verbatim>\<open>get_course_id\<close>, \<^verbatim>\<open>get_course_info\<close>, \<^verbatim>\<open>loop_through_courses\<close>\<close>

text \<open>What the code reads of the second cell of an expanded row: the text of its first
  \<^verbatim>\<open>h3\<close> (if any), and the siblings after the first \<^verbatim>\<open>hr\<close> that follows the \<^verbatim>\<open>h3\<close>
  (if there is such an \<^verbatim>\<open>hr\<close>). A missing element makes the attribute access on
  \<^verbatim>\<open>None\<close> raise \<^verbatim>\<open>AttributeError\<close>.\<close>

record expanded_cell =
  h3_text :: "pystr option"
  after_hr :: "node list option"

text \<open>What the code reads of a row: the number of its \<^verbatim>\<open>td\<close> elements; for an expanded
  row the text of \<^verbatim>\<open>td/p/strong\<close> (if present) and the second cell; for an unexpanded
  row the first \<^verbatim>\<open>a\<close> of the second cell (if any) with its \<^verbatim>\<open>href\<close> (if any).\<close>

record expanded_row =
  e_td_count :: nat
  e_strong :: "pystr option"
  e_cell :: expanded_cell

record unexpanded_row =
  u_td_count :: nat
  u_anchor :: "pystr option option"

definition get_course_id :: "pystr option option \<Rightarrow> error + int" where
  "get_course_id a =
     (case a of
        None \<Rightarrow> Inl TypeError
      | Some None \<Rightarrow> Inl KeyError
      | Some (Some href_value) \<Rightarrow>
          (let pieces = split_str (lit ''coid='') href_value in
           if length pieces < 2 then Inl IndexError else py_int (pieces ! 1)))"

text \<open>\<^verbatim>\<open>get_course_info\<close> of scrape.py: it raises only on a missing element.\<close>

definition scrape_get_course_info :: "expanded_cell \<Rightarrow> int \<Rightarrow> pystr \<Rightarrow> error + raw_course" where
  "scrape_get_course_info expanded_element course_id department =
     (case h3_text expanded_element of
        None \<Rightarrow> Inl AttributeError
      | Some h \<Rightarrow>
          (case after_hr expanded_element of
             None \<Rightarrow> Inl AttributeError
           | Some siblings \<Rightarrow>
               Inr \<lparr>rc_course_id = course_id, rc_department = department,
                    rc_header = snd (clean_text (strip h)),
                    rc_blocks = scrape_segment siblings\<rparr>))"

text \<open>\<^verbatim>\<open>get_course_info\<close> of main.py: header, segmentation, the dictionary (where
  \<^verbatim>\<open>blocks[0]\<close> raises on an empty list), the classifier loop, the course level.\<close>

definition main_get_course_info ::
  "expanded_cell \<Rightarrow> int \<Rightarrow> pystr \<Rightarrow> error + main_course \<times> pystr list" where
  "main_get_course_info expanded_element course_id department =
     (case h3_text expanded_element of
        None \<Rightarrow> Inl AttributeError
      | Some h \<Rightarrow>
     (case parse_header (strip h) of
        Inl e \<Rightarrow> Inl e
      | Inr (course_code, course_title, units) \<Rightarrow>
     (case after_hr expanded_element of
        None \<Rightarrow> Inl AttributeError
      | Some siblings \<Rightarrow>
     (case main_segment siblings of
        [] \<Rightarrow> Inl IndexError
      | description # rest \<Rightarrow>
     (case for_each (main_block course_code)
             (\<lparr>mc_title = strip course_title, mc_description = strip description,
               mc_department = department, mc_course_code = strip course_code,
               mc_course_id = course_id, mc_units = units,
               mc_prereqs = None, mc_grad_credit = None, mc_available_online = None,
               mc_requires_dept_consent = None, mc_typically_offered = None,
               mc_course_level = None\<rparr>, [])
             rest of
        Inl e \<Rightarrow> Inl e
      | Inr (course, out) \<Rightarrow>
     (case course_level course_code of
        Inl e \<Rightarrow> Inl e
      | Inr level \<Rightarrow> Inr (course\<lparr>mc_course_level := Some level\<rparr>, out)))))))"

text \<open>\<^verbatim>\<open>str(course_id)\<close>, the key of main.py's dictionary.\<close>

fun str_nat :: "nat \<Rightarrow> pystr" where
  "str_nat n = (if n < 10 then [48 + n] else str_nat (n div 10) @ [48 + n mod 10])"

definition str_int :: "int \<Rightarrow> pystr" where
  "str_int i = (if i < 0 then 45 # str_nat (nat (- i)) else str_nat (nat i))"

text \<open>The insertion into the output collection: \<^verbatim>\<open>courses[str(course_id)] = course\<close>
  in main.py, \<^verbatim>\<open>courses.append(course)\<close> in scrape.py.\<close>

definition main_insert :: "(pystr \<rightharpoonup> 'c) \<Rightarrow> int \<Rightarrow> 'c \<Rightarrow> (pystr \<rightharpoonup> 'c)" where
  "main_insert courses course_id course = courses(str_int course_id \<mapsto> course)"

definition scrape_insert :: "'c list \<Rightarrow> int \<Rightarrow> 'c \<Rightarrow> 'c list" where
  "scrape_insert courses course_id course = courses @ [course]"

text \<open>The loop of \<^verbatim>\<open>loop_through_courses\<close> over \<^verbatim>\<open>zip(..., strict=True)\<close>, the same in
  both files but for \<^verbatim>\<open>get_course_info\<close> (\<open>info\<close>) and the insertion (\<open>ins\<close>). The
  collection is shared and mutated in place, so what was inserted before an exception
  stays: the result is the exception raised, if any, with the collection as the loop
  left it. \<^verbatim>\<open>zip\<close> raises \<^verbatim>\<open>ValueError\<close> when one sequence ends before the other,
  at the moment it is asked for the pair that does not exist.\<close>

fun loop_rows ::
  "(expanded_cell \<Rightarrow> int \<Rightarrow> pystr \<Rightarrow> error + 'c) \<Rightarrow> ('s \<Rightarrow> int \<Rightarrow> 'c \<Rightarrow> 's) \<Rightarrow>
   pystr \<Rightarrow> expanded_row list \<Rightarrow> unexpanded_row list \<Rightarrow> 's \<Rightarrow> error option \<times> 's" where
  "loop_rows info ins current_section [] [] courses = (None, courses)"
| "loop_rows info ins current_section [] (u # us) courses = (Some ValueError, courses)"
| "loop_rows info ins current_section (e # es) [] courses = (Some ValueError, courses)"
| "loop_rows info ins current_section (e # es) (u # us) courses =
     (if e_td_count e \<noteq> 2 \<or> u_td_count u \<noteq> 2 then
        loop_rows info ins
          (if e_td_count e = 1
           then (case e_strong e of Some label \<Rightarrow> strip label | None \<Rightarrow> current_section)
           else current_section)
          es us courses
      else
        (case get_course_id (u_anchor u) of
           Inl err \<Rightarrow> (Some err, courses)
         | Inr course_id \<Rightarrow>
             (case info (e_cell e) course_id current_section of
                Inl err \<Rightarrow> (Some err, courses)
              | Inr course \<Rightarrow>
                  loop_rows info ins current_section es us (ins courses course_id course))))"

definition main_loop_through_courses ::
  "expanded_row list \<Rightarrow> unexpanded_row list \<Rightarrow> (pystr \<rightharpoonup> main_course) \<Rightarrow>
   error option \<times> (pystr \<rightharpoonup> main_course)" where
  "main_loop_through_courses expanded_table unexpanded_table courses =
     loop_rows (\<lambda>el cid dep. map_sum (\<lambda>e. e) fst (main_get_course_info el cid dep))
       main_insert [] expanded_table unexpanded_table courses"

definition scrape_loop_through_courses ::
  "expanded_row list \<Rightarrow> unexpanded_row list \<Rightarrow> raw_course list \<Rightarrow>
   error option \<times> raw_course list" where
  "scrape_loop_through_courses expanded_table unexpanded_table courses =
     loop_rows scrape_get_course_info scrape_insert [] expanded_table unexpanded_table courses"

section \<open>Words of the specification about pages and the output collection\<close>

text \<open>A sequence of insertions \<open>(course_id, course)\<close> into the output collection.\<close>

definition insert_all :: "('s \<Rightarrow> int \<Rightarrow> 'c \<Rightarrow> 's) \<Rightarrow> 's \<Rightarrow> (int \<times> 'c) list \<Rightarrow> 's" where
  "insert_all ins courses recs = foldl (\<lambda>cs (course_id, course). ins cs course_id course) courses recs"

text \<open>The record last inserted with an identifier, if any.\<close>

definition last_inserted :: "(int \<times> 'c) list \<Rightarrow> int \<Rightarrow> 'c option" where
  "last_inserted recs i =
     (case filter (\<lambda>(course_id, course). course_id = i) recs of
        [] \<Rightarrow> None
      | r # rs \<Rightarrow> Some (snd (last (r # rs))))"

text \<open>The words of the specification: the row pairs, walked in document order. The body is
  that of the loop of \<^verbatim>\<open>loop_through_courses\<close>.\<close>

fun walk_pairs ::
  "(expanded_cell \<Rightarrow> int \<Rightarrow> pystr \<Rightarrow> error + 'c) \<Rightarrow> ('s \<Rightarrow> int \<Rightarrow> 'c \<Rightarrow> 's) \<Rightarrow>
   pystr \<Rightarrow> (expanded_row \<times> unexpanded_row) list \<Rightarrow> 's \<Rightarrow> error option \<times> 's" where
  "walk_pairs info ins current_section [] courses = (None, courses)"
| "walk_pairs info ins current_section ((e, u) # pairs) courses =
     (if e_td_count e \<noteq> 2 \<or> u_td_count u \<noteq> 2 then
        walk_pairs info ins
          (if e_td_count e = 1
           then (case e_strong e of Some label \<Rightarrow> strip label | None \<Rightarrow> current_section)
           else current_section)
          pairs courses
      else
        (case get_course_id (u_anchor u) of
           Inl err \<Rightarrow> (Some err, courses)
         | Inr course_id \<Rightarrow>
             (case info (e_cell e) course_id current_section of
                Inl err \<Rightarrow> (Some err, courses)
              | Inr course \<Rightarrow>
                  walk_pairs info ins current_section pairs (ins courses course_id course))))"

section \<open>Words of the specification about the course level\<close>

text \<open>The integer value of a run of decimal digits.\<close>

definition digits_value :: "pystr \<Rightarrow> nat" where
  "digits_value ds =
     foldl (\<lambda>a c. 10 * a + (case decimal_value c of Some d \<Rightarrow> d | None \<Rightarrow> 0)) 0 ds"

text \<open>The whitespace-separated tokens of a string (what \<^verbatim>\<open>s.split()\<close> would give):
  maximal runs of characters that are not whitespace.\<close>

fun ws_tokens_go :: "pystr \<Rightarrow> pystr \<Rightarrow> pystr list" where
  "ws_tokens_go acc [] = (if acc = [] then [] else [rev acc])"
| "ws_tokens_go acc (c # cs) =
     (if isspace c then (if acc = [] then ws_tokens_go [] cs else rev acc # ws_tokens_go [] cs)
      else ws_tokens_go (c # acc) cs)"

definition whitespace_tokens :: "pystr \<Rightarrow> pystr list" where
  "whitespace_tokens s = ws_tokens_go [] s"

section \<open>Example inputs\<close>

definition acct_201a_no_blocks :: raw_course where
  "acct_201a_no_blocks =
     \<lparr>rc_course_id = 594896, rc_department = lit ''Accounting'',
      rc_header = lit ''ACCT 201A - Financial Accounting (3)'', rc_blocks = []\<rparr>"

definition egcp_10s_cell :: expanded_cell where
  "egcp_10s_cell = \<lparr>h3_text = Some (lit ''EGCP 10S - Early Start (1)''), after_hr = Some [Br]\<rparr>"

definition pc_acct_201a :: processed_course where
  "pc_acct_201a =
     \<lparr>pc_course_id = 594896, pc_department = lit ''Accounting'', pc_course_level = 201,
      pc_title = lit ''Financial Accounting'', pc_description = lit ''Accounting concepts.'',
      pc_course_code = lit ''ACCT 201A'', pc_units = lit ''3'', pc_prerequisites = [],
      pc_grad_credit = False, pc_available_online = False, pc_requires_dept_consent = False,
      pc_typically_offered = []\<rparr>"

definition mc_acct_201a :: main_course where
  "mc_acct_201a =
     \<lparr>mc_title = lit ''Financial Accounting'', mc_description = lit ''Accounting concepts.'',
      mc_department = lit ''Accounting'', mc_course_code = lit ''ACCT 201A'',
      mc_course_id = 594896, mc_units = lit ''3'', mc_prereqs = None, mc_grad_credit = None,
      mc_available_online = None, mc_requires_dept_consent = None,
      mc_typically_offered = None, mc_course_level = None\<rparr>"

definition acct_201a_blocks :: "pystr list" where
  "acct_201a_blocks =
     [lit ''Prerequisite: ACCT 101'', lit ''Department consent required'',
      lit ''Typically Offered: Fall/Spring'']"

definition acct_201a_siblings :: "node list" where
  "acct_201a_siblings =
     [Other (lit '' Accounting concepts. ''), Br, Other (lit '' ''), Br,
      Other (lit ''Prerequisite:''), Other (lit '' ACCT 101 ''), Br]"

definition raw_acct_201a :: raw_course where
  "raw_acct_201a =
     \<lparr>rc_course_id = 594896, rc_department = lit ''Accounting'',
      rc_header = lit ''ACCT 201A - Financial Accounting (3)'',
      rc_blocks = [lit ''Accounting concepts.'']\<rparr>"

definition accounting_header_row :: expanded_row where
  "accounting_header_row =
     \<lparr>e_td_count = 1, e_strong = Some (lit '' Accounting ''),
      e_cell = \<lparr>h3_text = None, after_hr = None\<rparr>\<rparr>"

definition acct_201a_row :: expanded_row where
  "acct_201a_row =
     \<lparr>e_td_count = 2, e_strong = None,
      e_cell = \<lparr>h3_text = Some (lit ''ACCT 201A - Financial Accounting (3)''),
                after_hr = Some [Other (lit ''Accounting concepts.'')]\<rparr>\<rparr>"

definition unexpanded_header_row :: unexpanded_row where
  "unexpanded_header_row = \<lparr>u_td_count = 1, u_anchor = None\<rparr>"

definition acct_201a_link_row :: unexpanded_row where
  "acct_201a_link_row =
     \<lparr>u_td_count = 2, u_anchor = Some (Some (lit ''preview_course_nopop.php?catoid=95&coid=594896''))\<rparr>"

section \<open>Properties of the string builtins\<close>

lemma decimal_value_ascii:
  "c < 1632 \<Longrightarrow> decimal_value c = (if 48 \<le> c \<and> c \<le> 57 then Some (c - 48) else None)"
  by (simp add: decimal_value_def decimal_zeros_def)

lemma isdigit_latin1:
  "c < 1632 \<Longrightarrow> isdigit c \<longleftrightarrow> (48 \<le> c \<and> c \<le> 57) \<or> c = 178 \<or> c = 179 \<or> c = 185"
  by (auto simp: isdigit_def isdecimal_def decimal_value_ascii other_digits_def)

lemma lstrip_Cons_space: "isspace c \<Longrightarrow> lstrip (c # s) = lstrip s"
  by (simp add: lstrip_def)

lemma lstrip_append_nonspace: "\<not> isspace c \<Longrightarrow> lstrip (s @ c # t) = lstrip s @ c # t"
  by (induction s) (simp_all add: lstrip_def)

lemma lstrip_snoc_space:
  "isspace c \<Longrightarrow> lstrip (s @ [c]) = (if \<forall>x\<in>set s. isspace x then [] else lstrip s @ [c])"
  by (induction s) (simp_all add: lstrip_def)

lemma lstrip_idem: "lstrip (lstrip s) = lstrip s"
  by (simp add: lstrip_def dropWhile_idem)

lemma lstrip_all_space: "\<forall>x\<in>set s. isspace x \<Longrightarrow> lstrip s = []"
  by (simp add: lstrip_def)

lemma rstrip_Nil: "rstrip [] = []"
  by (simp add: rstrip_def)

lemma rstrip_snoc_space: "isspace c \<Longrightarrow> rstrip (s @ [c]) = rstrip s"
  by (simp add: rstrip_def)

lemma rstrip_snoc_nonspace: "\<not> isspace c \<Longrightarrow> rstrip (s @ [c]) = s @ [c]"
  by (simp add: rstrip_def)

lemma strip_snoc_space: "isspace c \<Longrightarrow> strip (s @ [c]) = strip s"
  by (simp add: strip_def lstrip_snoc_space rstrip_snoc_space rstrip_Nil lstrip_all_space)

lemma strip_Cons_space: "isspace c \<Longrightarrow> strip (c # s) = strip s"
  by (simp add: strip_def lstrip_Cons_space)

lemma strip_lstrip: "strip (lstrip s) = strip s"
  by (simp add: strip_def lstrip_idem)

lemma lstrip_id: "s = [] \<or> \<not> isspace (hd s) \<Longrightarrow> lstrip s = s"
  by (cases s) (simp_all add: lstrip_def)

lemma rstrip_id: "s = [] \<or> \<not> isspace (last s) \<Longrightarrow> rstrip s = s"
  by (cases s rule: rev_cases) (simp_all add: rstrip_def)

lemma strip_id: "s = [] \<or> (\<not> isspace (hd s) \<and> \<not> isspace (last s)) \<Longrightarrow> strip s = s"
  by (auto simp: strip_def lstrip_id rstrip_id)

lemma isspace_32: "isspace 32"
  by (simp add: isspace_def)

lemma not_isspace_paren: "\<not> isspace 40" "\<not> isspace 41"
  by (simp_all add: isspace_def)

lemma split1_first: "sep \<notin> set c \<Longrightarrow> split1 sep (c @ sep # p) = [c, p]"
  by (induction c) (simp_all add: split1_def)

lemma split1_absent: "sep \<notin> set s \<Longrightarrow> split1 sep s = [s]"
  by (simp add: split1_def)

lemma split1_present: "sep \<in> set s \<Longrightarrow> length (split1 sep s) = 2"
  by (simp add: split1_def)

lemma takeWhile_neq_append: "c \<notin> set ys \<Longrightarrow> takeWhile (\<lambda>x. x \<noteq> c) (ys @ c # xs) = ys"
  by (induction ys) auto

lemma rfind_last: "c \<notin> set ys \<Longrightarrow> rfind (xs @ c # ys) c = int (length xs)"
proof -
  assume a: "c \<notin> set ys"
  have "takeWhile (\<lambda>x. x \<noteq> c) (rev (xs @ c # ys)) = rev ys"
    using takeWhile_neq_append [of c "rev ys" "rev xs"] a by simp
  then show ?thesis by (simp add: rfind_def)
qed

lemma rfind_absent: "c \<notin> set s \<Longrightarrow> rfind s c = - 1"
  by (simp add: rfind_def)

lemma slice_prefix: "slice (a @ b) 0 (int (length a)) = a"
  by (simp add: slice_def Let_def)

lemma slice_middle:
  "slice (a @ x # u @ y # r) (int (length a) + 1) (int (length a) + 1 + int (length u)) = u"
  by (simp add: slice_def Let_def nat_add_distrib)

lemma parse_header_parens:
  assumes "45 \<notin> set c" and "strip p = a @ 40 # u @ 41 # r"
    and "40 \<notin> set u" and "40 \<notin> set r" and "41 \<notin> set r"
  shows "parse_header (c @ 45 # p) = Inr (strip c, strip a, u)"
proof -
  let ?tu = "a @ 40 # u @ 41 # r"
  have l: "rfind ?tu 40 = int (length a)"
    using rfind_last [of 40 "u @ 41 # r" a] assms by simp
  have r: "rfind ?tu 41 = int (length a) + 1 + int (length u)"
    using rfind_last [of 41 r "a @ 40 # u"] assms by simp
  have u: "slice ?tu (rfind ?tu 40 + 1) (rfind ?tu 41) = u"
    unfolding l r by (rule slice_middle)
  have t: "slice ?tu 0 (rfind ?tu 40) = a"
    unfolding l using slice_prefix [of a "40 # u @ 41 # r"] by simp
  show ?thesis
    using assms(1,2) u t by (simp add: parse_header_def split1_first Let_def)
qed

lemma parse_header_hyphen:
  "45 \<in> set header \<Longrightarrow> \<exists>code title units. parse_header header = Inr (code, title, units)"
  by (simp add: parse_header_def split1_present Let_def)

lemma parse_header_no_hyphen: "45 \<notin> set header \<Longrightarrow> parse_header header = Inl IndexError"
  by (simp add: parse_header_def split1_absent Let_def)

lemmas strip_defs = strip_def lstrip_def rstrip_def isspace_def

lemmas eval_defs =
  lit_def strip_defs lower_def lower_cp_def startswith_def split1_def rfind_def slice_def
  isdigit_latin1 decimal_value_ascii isdecimal_def int_strip_def int_isspace_def
  int_max_str_digits_def py_int_def parse_header_def course_level_def Let_def

section \<open>Header parsing\<close>

text \<open>
  C2, as the specification states it: a header whose part after the first hyphen lacks
  a parenthesis makes header parsing fail, and the unit range is trimmed. The code tests
  for neither parenthesis (\<^verbatim>\<open>rfind\<close> gives \<open>-1\<close> and the slices go on) and does not
  strip the unit range: a header with no parenthesis yields a title and a unit range,
  and padded units come back padded.
\<close>

theorem C2_header_parentheses_counterexample:
  "40 \<notin> set (lit ''ACCT 499 - Independent Study'') \<and>
   41 \<notin> set (lit ''ACCT 499 - Independent Study'') \<and>
   parse_header (lit ''ACCT 499 - Independent Study'') =
     Inr (lit ''ACCT 499'', lit ''Independent Stud'', lit ''Independent Stud'') \<and>
   parse_header (lit ''ACCT 201A - Financial Accounting ( 3 )'') =
     Inr (lit ''ACCT 201A'', lit ''Financial Accounting'', lit '' 3 '') \<and>
   strip (lit '' 3 '') \<noteq> lit '' 3 ''"
  by (simp add: eval_defs)

text \<open>
  C2, amended: header parsing raises (\<^verbatim>\<open>IndexError\<close>) exactly when the header has no
  hyphen; a missing parenthesis never makes it fail. When the part after the first
  hyphen, trimmed, has a last \<^verbatim>\<open>(\<close> followed later by its last \<^verbatim>\<open>)\<close>, the unit range
  is the substring strictly between the two, as it stands (not trimmed), the title is
  the trimmed substring before the last \<^verbatim>\<open>(\<close>, and the code is the trimmed part before
  the hyphen.
\<close>

theorem C2_header_parentheses:
  "(45 \<in> set header \<longrightarrow> (\<exists>code title units. parse_header header = Inr (code, title, units))) \<and>
   (45 \<notin> set header \<longrightarrow> parse_header header = Inl IndexError) \<and>
   (45 \<notin> set c \<and> strip p = a @ 40 # u @ 41 # r \<and> 40 \<notin> set u \<and> 40 \<notin> set r \<and> 41 \<notin> set r \<longrightarrow>
      parse_header (c @ 45 # p) = Inr (strip c, strip a, u))"
  using parse_header_hyphen [of header] parse_header_no_hyphen [of header]
    parse_header_parens [of c p a u r]
  by blast

theorem C2_header_parentheses_witness:
  "parse_header (lit ''ACCT 201A - Financial Accounting (3)'') =
     Inr (lit ''ACCT 201A'', lit ''Financial Accounting'', lit ''3'')"
proof -
  have e: "lit ''ACCT 201A - Financial Accounting (3)'' =
      lit ''ACCT 201A '' @ 45 # lit '' Financial Accounting (3)''"
    by (simp add: lit_def)
  have s: "strip (lit '' Financial Accounting (3)'') =
      lit ''Financial Accounting '' @ 40 # lit ''3'' @ 41 # []"
    by (simp add: lit_def strip_defs)
  have "parse_header (lit ''ACCT 201A '' @ 45 # lit '' Financial Accounting (3)'') =
      Inr (strip (lit ''ACCT 201A ''), strip (lit ''Financial Accounting ''), lit ''3'')"
    using C2_header_parentheses
      [of "lit ''ACCT 201A - Financial Accounting (3)''" "lit ''ACCT 201A ''"
          "lit '' Financial Accounting (3)''" "lit ''Financial Accounting ''" "lit ''3''" "[]"] s
    by (simp add: lit_def)
  then show ?thesis
    unfolding e by (simp add: lit_def strip_defs)
qed

text \<open>
  C8, as the specification states it: parsing \<^verbatim>\<open><CODE> - <TITLE> (<UNITS>)\<close> gives back
  the three parts, each trimmed. The unit range is not trimmed: for the units \<^verbatim>\<open>" 4 "\<close>
  (no hyphen in the code, no parenthesis in the units) the parser returns \<^verbatim>\<open>" 4 "\<close>.
\<close>

theorem C8_header_roundtrip_counterexample:
  "45 \<notin> set (lit ''MATH 150A'') \<and> 40 \<notin> set (lit '' 4 '') \<and> 41 \<notin> set (lit '' 4 '') \<and>
   parse_header (lit ''MATH 150A'' @ lit '' - '' @ lit ''Calculus I'' @ lit '' ('' @ lit '' 4 '' @ lit '')'') =
     Inr (lit ''MATH 150A'', lit ''Calculus I'', lit '' 4 '') \<and>
   strip (lit '' 4 '') = lit ''4'' \<and> lit '' 4 '' \<noteq> lit ''4''"
  by (simp add: eval_defs)

text \<open>
  C8, amended: for every CODE, TITLE, UNITS with no hyphen in CODE and no parenthesis in
  UNITS, parsing \<^verbatim>\<open><CODE> - <TITLE> (<UNITS>)\<close> returns CODE trimmed as the course code,
  TITLE trimmed as the title, and UNITS as it stands (not trimmed) as the unit range.
\<close>

theorem C8_header_roundtrip:

  "45 \<notin> set CODE \<and> 40 \<notin> set UNITS \<and> 41 \<notin> set UNITS \<longrightarrow>
   parse_header (CODE @ lit '' - '' @ TITLE @ lit '' ('' @ UNITS @ lit '')'') =
     Inr (strip CODE, strip TITLE, UNITS)"
proof
  assume a: "45 \<notin> set CODE \<and> 40 \<notin> set UNITS \<and> 41 \<notin> set UNITS"
  have e: "CODE @ lit '' - '' @ TITLE @ lit '' ('' @ UNITS @ lit '')'' =
      (CODE @ [32]) @ 45 # (32 # TITLE @ 32 # 40 # UNITS @ [41])"
    by (simp add: lit_def)
  have "strip (32 # TITLE @ 32 # 40 # UNITS @ [41]) = strip ((TITLE @ 32 # 40 # UNITS) @ [41])"
    by (simp add: strip_Cons_space isspace_32)
  also have "\<dots> = rstrip (lstrip ((TITLE @ [32]) @ 40 # UNITS @ [41]))"
    by (simp add: strip_def)
  also have "\<dots> = rstrip ((lstrip (TITLE @ [32]) @ 40 # UNITS) @ [41])"
    using lstrip_append_nonspace [of 40 "TITLE @ [32]" "UNITS @ [41]"]
    by (simp add: not_isspace_paren)
  also have "\<dots> = lstrip (TITLE @ [32]) @ 40 # UNITS @ 41 # []"
    using rstrip_snoc_nonspace [of 41 "lstrip (TITLE @ [32]) @ 40 # UNITS"]
    by (simp add: not_isspace_paren)
  finally have s: "strip (32 # TITLE @ 32 # 40 # UNITS @ [41]) =
      lstrip (TITLE @ [32]) @ 40 # UNITS @ 41 # []" .
  have "parse_header ((CODE @ [32]) @ 45 # (32 # TITLE @ 32 # 40 # UNITS @ [41])) =
      Inr (strip (CODE @ [32]), strip (lstrip (TITLE @ [32])), UNITS)"
    using a s parse_header_parens [of "CODE @ [32]" "32 # TITLE @ 32 # 40 # UNITS @ [41]"
        "lstrip (TITLE @ [32])" UNITS "[]"]
    by simp
  then show "parse_header (CODE @ lit '' - '' @ TITLE @ lit '' ('' @ UNITS @ lit '')'') =
     Inr (strip CODE, strip TITLE, UNITS)"
    unfolding e by (simp add: strip_lstrip strip_snoc_space isspace_32)
qed

theorem C8_header_roundtrip_witness:
  "parse_header (lit ''  EGCP 10S - Early Start  (1-3)'') =
     Inr (lit ''EGCP 10S'', lit ''Early Start'', lit ''1-3'')"
proof -
  have "parse_header (lit ''  EGCP 10S'' @ lit '' - '' @ lit ''Early Start '' @ lit '' ('' @ lit ''1-3'' @ lit '')'') =
      Inr (strip (lit ''  EGCP 10S''), strip (lit ''Early Start ''), lit ''1-3'')"
    using C8_header_roundtrip [of "lit ''  EGCP 10S''" "lit ''1-3''" "lit ''Early Start ''"]
    by (simp add: lit_def)
  then show ?thesis
    by (simp add: lit_def strip_defs)
qed

section \<open>Empty block sequences\<close>

text \<open>
  C3, as the specification states it: a raw record with no blocks is processed with the
  description absent, without an out-of-bounds failure at \<^verbatim>\<open>blocks[0]\<close>. The code
  indexes \<^verbatim>\<open>blocks[0]\<close> without a test: for the catalog's usual header and no blocks,
  \<^verbatim>\<open>reprocess_course\<close> raises \<^verbatim>\<open>IndexError\<close>.
\<close>

theorem C3_empty_blocks_counterexample:
  "rc_blocks acct_201a_no_blocks = [] \<and> reprocess_course acct_201a_no_blocks = Inl IndexError"
  by (simp add: acct_201a_no_blocks_def reprocess_course_def eval_defs)

text \<open>
  C3, amended: for every raw record whose block sequence is empty, \<^verbatim>\<open>reprocess_course\<close>
  returns no structured record: it raises, and the exception is the \<^verbatim>\<open>IndexError\<close> of
  \<^verbatim>\<open>blocks[0]\<close> whenever the header parses and the course level derives. In main.py,
  \<^verbatim>\<open>get_course_info\<close> raises as well when the segmenter yields no block.
\<close>

theorem C3_empty_blocks_raise:
  "(rc_blocks course = [] \<longrightarrow>
      (\<exists>e. reprocess_course course = Inl e) \<and>
      (\<forall>course_code title units level.
         parse_header (rc_header course) = Inr (course_code, title, units) \<and>
         course_level course_code = Inr level \<longrightarrow>
         reprocess_course course = Inl IndexError)) \<and>
   (after_hr el = Some siblings \<and> main_segment siblings = [] \<longrightarrow>
      (\<exists>e. main_get_course_info el cid dep = Inl e))"
proof (intro conjI impI allI)
  assume "rc_blocks course = []"
  then show "\<exists>e. reprocess_course course = Inl e"
    by (auto simp: reprocess_course_def split: sum.splits prod.splits)
next
  fix course_code title units level
  assume "rc_blocks course = []"
    and "parse_header (rc_header course) = Inr (course_code, title, units) \<and>
         course_level course_code = Inr level"
  then show "reprocess_course course = Inl IndexError"
    by (simp add: reprocess_course_def)
next
  assume "after_hr el = Some siblings \<and> main_segment siblings = []"
  then show "\<exists>e. main_get_course_info el cid dep = Inl e"
    by (auto simp: main_get_course_info_def split: sum.splits prod.splits option.splits)
qed

theorem C3_empty_blocks_raise_witness:
  "reprocess_course
     \<lparr>rc_course_id = 1, rc_department = [], rc_header = lit ''EGCP 10S - Early Start (1)'',
      rc_blocks = []\<rparr> = Inl IndexError \<and>
   main_get_course_info egcp_10s_cell 1 [] = Inl IndexError"
proof -
  have hdr: "parse_header (lit ''EGCP 10S - Early Start (1)'') =
      Inr (lit ''EGCP 10S'', lit ''Early Start'', lit ''1'')"
    by (simp add: eval_defs)
  have lvl: "course_level (lit ''EGCP 10S'') = Inr 10"
    by (simp add: eval_defs)
  have seg: "main_segment [Br] = []"
    by (simp add: main_segment_def strip_defs)
  have "\<exists>e. main_get_course_info egcp_10s_cell 1 [] = Inl e"
    using C3_empty_blocks_raise
      [of "\<lparr>rc_course_id = 1, rc_department = [],
            rc_header = lit ''EGCP 10S - Early Start (1)'', rc_blocks = []\<rparr>"
          egcp_10s_cell "[Br]" 1 "[]"] seg
    by (simp add: egcp_10s_cell_def)
  moreover have "main_get_course_info egcp_10s_cell 1 [] = Inl IndexError"
    using hdr seg by (simp add: main_get_course_info_def egcp_10s_cell_def strip_defs lit_def)
  moreover have "reprocess_course
     \<lparr>rc_course_id = 1, rc_department = [], rc_header = lit ''EGCP 10S - Early Start (1)'',
      rc_blocks = []\<rparr> = Inl IndexError"
    using C3_empty_blocks_raise
      [of "\<lparr>rc_course_id = 1, rc_department = [],
            rc_header = lit ''EGCP 10S - Early Start (1)'', rc_blocks = []\<rparr>"
          egcp_10s_cell "[Br]" 1 "[]"] hdr lvl
    by simp
  ultimately show ?thesis by simp
qed

section \<open>Course level\<close>

lemma decimal_value_SomeD:
  "decimal_value c = Some d \<Longrightarrow> \<exists>z\<in>set decimal_zeros. z \<le> c \<and> c \<le> z + 9 \<and> d = c - z"
  by (auto simp: decimal_value_def find_Some_iff split: option.splits)

lemma decimal_zeros_clear:
  "\<forall>z\<in>set decimal_zeros.
     z = 48 \<or> (1632 \<le> z \<and> (z + 9 < 5760 \<or> 5760 < z) \<and> (z + 9 < 8192 \<or> 12288 < z))"
  by (simp add: decimal_zeros_def)

lemma other_digits_clear:
  "\<forall>(lo, hi)\<in>set other_digits.
     161 \<le> lo \<and> (hi < 5760 \<or> 5760 < lo) \<and> (hi < 8192 \<or> 8287 < lo) \<and>
     (hi < 12288 \<or> 12288 < lo)"
  by (simp add: other_digits_def)

lemma isdecimal_plain:
  assumes "isdecimal c"
  shows "\<not> int_isspace c \<and> c \<noteq> 45 \<and> c \<noteq> 43 \<and> c \<noteq> 95"
proof -
  obtain d where "decimal_value c = Some d"
    using assms by (auto simp: isdecimal_def)
  then obtain z where z: "z \<in> set decimal_zeros" "z \<le> c" "c \<le> z + 9"
    using decimal_value_SomeD by blast
  then have "z = 48 \<or> (1632 \<le> z \<and> (z + 9 < 5760 \<or> 5760 < z) \<and> (z + 9 < 8192 \<or> 12288 < z))"
    using decimal_zeros_clear by blast
  then show ?thesis
    using z(2,3) by (auto simp: int_isspace_def isspace_def)
qed

lemma isdigit_plain:
  assumes "isdigit c"
  shows "\<not> int_isspace c \<and> c \<noteq> 45 \<and> c \<noteq> 43 \<and> c \<noteq> 95"
proof (cases "isdecimal c")
  case True
  then show ?thesis by (rule isdecimal_plain)
next
  case False
  then obtain lo hi where r: "(lo, hi) \<in> set other_digits" "lo \<le> c" "c \<le> hi"
    using assms by (auto simp: isdigit_def list_ex_iff)
  then have "161 \<le> lo \<and> (hi < 5760 \<or> 5760 < lo) \<and> (hi < 8192 \<or> 8287 < lo) \<and>
     (hi < 12288 \<or> 12288 < lo)"
    using other_digits_clear by blast
  then show ?thesis
    using r(2,3) by (auto simp: int_isspace_def isspace_def)
qed

lemma int_strip_id:
  "s = [] \<or> (\<not> int_isspace (hd s) \<and> \<not> int_isspace (last s)) \<Longrightarrow> int_strip s = s"
proof -
  assume a: "s = [] \<or> (\<not> int_isspace (hd s) \<and> \<not> int_isspace (last s))"
  have l: "dropWhile int_isspace s = s"
    using a by (cases s) simp_all
  have "dropWhile int_isspace (rev s) = rev s"
    using a by (cases s rule: rev_cases) simp_all
  then show ?thesis
    by (simp add: int_strip_def l)
qed

lemma level_str_loop_takeWhile: "level_str_loop acc s = acc @ takeWhile isdigit s"
  by (induction s arbitrary: acc) simp_all

lemma int_digits_decimal:
  "\<forall>c\<in>set ds. isdecimal c \<Longrightarrow> ds \<noteq> [] \<or> prev \<Longrightarrow>
   int_digits prev acc ds =
     Some (foldl (\<lambda>a c. 10 * a + (case decimal_value c of Some d \<Rightarrow> d | None \<Rightarrow> 0)) acc ds)"
  by (induction ds arbitrary: prev acc) (auto simp: isdecimal_def)

lemma int_digits_other:
  "c \<in> set ds \<Longrightarrow> decimal_value c = None \<Longrightarrow> c \<noteq> 95 \<Longrightarrow> int_digits prev acc ds = None"
  by (induction ds arbitrary: prev acc) (auto split: option.splits)

text \<open>\<^verbatim>\<open>int\<close> on a non-empty run of \<^verbatim>\<open>isdigit\<close> characters.\<close>

lemma py_int_digit_run:
  assumes "\<forall>c\<in>set ds. isdigit c" and "ds \<noteq> []"
  shows "py_int ds =
     (if (\<forall>c\<in>set ds. isdecimal c) \<and> length ds \<le> int_max_str_digits
      then Inr (int (digits_value ds)) else Inl ValueError)"
proof -
  have "\<not> int_isspace (hd ds)" "\<not> int_isspace (last ds)" "hd ds \<noteq> 45" "hd ds \<noteq> 43"
    using assms by (simp_all add: isdigit_plain)
  then have s: "int_strip ds = ds" and c: "hd ds \<noteq> 45" "hd ds \<noteq> 43"
    by (simp_all add: int_strip_id)
  have t: "(case ds of [] \<Rightarrow> (False, [])
         | c # cs \<Rightarrow> if c = 45 then (True, cs) else if c = 43 then (False, cs) else (False, ds)) =
        (False, ds)"
    using c assms(2) by (cases ds) simp_all
  have p: "py_int ds =
      (if int_max_str_digits < length (filter isdecimal ds) then Inl ValueError
       else case int_digits False 0 ds of None \<Rightarrow> Inl ValueError | Some n \<Rightarrow> Inr (int n))"
    unfolding py_int_def s Let_def t by (simp split: option.splits)
  show ?thesis
  proof (cases "\<forall>c\<in>set ds. isdecimal c")
    case True
    then have f: "filter isdecimal ds = ds" by simp
    have i: "int_digits False 0 ds = Some (digits_value ds)"
      using int_digits_decimal [OF True, of False 0] assms(2)
      by (simp add: digits_value_def)
    show ?thesis unfolding p f i using True by auto
  next
    case False
    then obtain c where c: "c \<in> set ds" "decimal_value c = None"
      by (auto simp: isdecimal_def)
    then have "c \<noteq> 95" using assms(1) isdigit_plain by blast
    then have "int_digits False 0 ds = None"
      using c by (rule int_digits_other [rotated 2])
    then show ?thesis unfolding p using False by simp
  qed
qed

lemma py_int_empty: "py_int [] = Inl ValueError"
  by (simp add: py_int_def int_strip_def)

text \<open>
  C6, as the specification states it: the level is the value of the leading digits of
  the second whitespace-separated token. The code takes the second piece of
  \<^verbatim>\<open>course_code.split(" ")\<close>, which cuts at every single space: with two spaces
  between department and number the second piece is empty and \<^verbatim>\<open>int("")\<close> raises,
  although the second whitespace-separated token starts with digits. And
  \<^verbatim>\<open>isdigit\<close> accepts a superscript digit that \<^verbatim>\<open>int\<close> rejects.
\<close>

theorem C6_course_level_counterexample:
  "whitespace_tokens (lit ''ACCT  201A'') ! 1 = lit ''201A'' \<and>
   isdecimal (hd (lit ''201A'')) \<and>
   course_level (lit ''ACCT  201A'') = Inl ValueError \<and>
   whitespace_tokens [69, 71, 67, 80, 32, 49, 48, 178] ! 1 = [49, 48, 178] \<and>
   isdecimal (hd [49, 48, 178]) \<and>
   course_level [69, 71, 67, 80, 32, 49, 48, 178] = Inl ValueError"
  by (simp add: whitespace_tokens_def eval_defs)

text \<open>
  C6, amended: for every course code whose second piece, cut at single spaces
  (\<^verbatim>\<open>split(" ")\<close>), begins with a non-empty maximal run of \<^verbatim>\<open>isdigit\<close> characters
  that are all decimal digits (\<^verbatim>\<open>0\<close>..\<^verbatim>\<open>9\<close>, or the decimal digits of another script),
  at most 4300 of them, the course level is the integer value of that run
  (\<^verbatim>\<open>"ACCT 201A"\<close> yields 201, \<^verbatim>\<open>"EGCP 10S"\<close> yields 10). When the second piece has no
  leading digit, or the run holds a digit that is not a decimal digit (a superscript,
  say) or more than 4300 digits, the derivation raises \<^verbatim>\<open>ValueError\<close>; when there is
  no second piece it raises \<^verbatim>\<open>IndexError\<close>.
\<close>

theorem C6_course_level:
  "(split_chr 32 course_code = first # tok # rest \<and> takeWhile isdigit tok \<noteq> [] \<and>
      (\<forall>c\<in>set (takeWhile isdigit tok). isdecimal c) \<and>
      length (takeWhile isdigit tok) \<le> int_max_str_digits \<longrightarrow>
      course_level course_code = Inr (int (digits_value (takeWhile isdigit tok)))) \<and>
   (split_chr 32 course_code = first # tok # rest \<and>
      (takeWhile isdigit tok = [] \<or> (\<exists>c\<in>set (takeWhile isdigit tok). \<not> isdecimal c) \<or>
       int_max_str_digits < length (takeWhile isdigit tok)) \<longrightarrow>
      course_level course_code = Inl ValueError) \<and>
   (length (split_chr 32 course_code) < 2 \<longrightarrow> course_level course_code = Inl IndexError)"
proof (intro conjI impI)
  assume a: "split_chr 32 course_code = first # tok # rest \<and> takeWhile isdigit tok \<noteq> [] \<and>
      (\<forall>c\<in>set (takeWhile isdigit tok). isdecimal c) \<and>
      length (takeWhile isdigit tok) \<le> int_max_str_digits"
  have "\<forall>c\<in>set (takeWhile isdigit tok). isdigit c"
    by (auto dest: set_takeWhileD)
  then have "py_int (takeWhile isdigit tok) = Inr (int (digits_value (takeWhile isdigit tok)))"
    using a py_int_digit_run [of "takeWhile isdigit tok"] by simp
  then show "course_level course_code = Inr (int (digits_value (takeWhile isdigit tok)))"
    using a by (simp add: course_level_def level_str_loop_takeWhile)
next
  assume a: "split_chr 32 course_code = first # tok # rest \<and>
      (takeWhile isdigit tok = [] \<or> (\<exists>c\<in>set (takeWhile isdigit tok). \<not> isdecimal c) \<or>
       int_max_str_digits < length (takeWhile isdigit tok))"
  have d: "\<forall>c\<in>set (takeWhile isdigit tok). isdigit c"
    by (auto dest: set_takeWhileD)
  have "py_int (takeWhile isdigit tok) = Inl ValueError"
  proof (cases "takeWhile isdigit tok = []")
    case True
    then show ?thesis by (simp add: py_int_empty)
  next
    case False
    then show ?thesis
      using a py_int_digit_run [OF d False] by auto
  qed
  then show "course_level course_code = Inl ValueError"
    using a by (simp add: course_level_def level_str_loop_takeWhile)
next
  assume "length (split_chr 32 course_code) < 2"
  then show "course_level course_code = Inl IndexError"
    by (simp add: course_level_def)
qed

theorem C6_course_level_witness:
  "course_level (lit ''ACCT 201A'') = Inr 201 \<and> course_level (lit ''EGCP 10S'') = Inr 10 \<and>
   course_level (lit ''ACCT '' @ [1635, 1632]) = Inr 30 \<and>
   course_level (lit ''ACCT TBA'') = Inl ValueError \<and>
   course_level (lit ''ACCT 1'' @ [178]) = Inl ValueError \<and>
   course_level (lit ''ACCT'') = Inl IndexError"
proof -
  have 1: "split_chr 32 (lit ''ACCT 201A'') = lit ''ACCT'' # lit ''201A'' # []"
    and 2: "split_chr 32 (lit ''EGCP 10S'') = lit ''EGCP'' # lit ''10S'' # []"
    and 3: "split_chr 32 (lit ''ACCT TBA'') = lit ''ACCT'' # lit ''TBA'' # []"
    and 4: "split_chr 32 (lit ''ACCT'') = [lit ''ACCT'']"
    and 5: "split_chr 32 (lit ''ACCT '' @ [1635, 1632]) = lit ''ACCT'' # [1635, 1632] # []"
    and 6: "split_chr 32 (lit ''ACCT 1'' @ [178]) = lit ''ACCT'' # [49, 178] # []"
    by (simp_all add: lit_def)
  have i: "isdigit 1635" "isdigit 1632" "isdecimal 1635" "isdecimal 1632"
    "decimal_value 1635 = Some 3" "decimal_value 1632 = Some 0"
    by (simp_all add: isdigit_def isdecimal_def decimal_value_def decimal_zeros_def)
  have t1: "takeWhile isdigit (lit ''201A'') = lit ''201''"
    and t2: "takeWhile isdigit (lit ''10S'') = lit ''10''"
    and t3: "takeWhile isdigit (lit ''TBA'') = []"
    by (simp_all add: lit_def isdigit_latin1)
  have j: "isdigit 49" "isdigit 178" "isdecimal 49" "\<not> isdecimal 178"
    by (simp_all add: isdigit_latin1 isdecimal_def decimal_value_ascii)
  have v: "digits_value (lit ''201'') = 201" "digits_value (lit ''10'') = 10"
    by (simp_all add: lit_def digits_value_def decimal_value_ascii)
  have v5: "digits_value [1635, 1632] = 30"
    by (simp add: digits_value_def i)
  have d: "\<forall>c\<in>set (lit ''201''). isdecimal c" "\<forall>c\<in>set (lit ''10''). isdecimal c"
    by (simp_all add: lit_def isdecimal_def decimal_value_ascii)
  have n: "lit ''201'' \<noteq> []" "lit ''10'' \<noteq> []"
    "length (lit ''201'') \<le> int_max_str_digits" "length (lit ''10'') \<le> int_max_str_digits"
    "Suc (Suc 0) \<le> int_max_str_digits"
    by (simp_all add: lit_def int_max_str_digits_def)
  show ?thesis
    using C6_course_level [of "lit ''ACCT 201A''" "lit ''ACCT''" "lit ''201A''" "[]"]
      C6_course_level [of "lit ''EGCP 10S''" "lit ''EGCP''" "lit ''10S''" "[]"]
      C6_course_level [of "lit ''ACCT '' @ [1635, 1632]" "lit ''ACCT''" "[1635, 1632]" "[]"]
      C6_course_level [of "lit ''ACCT TBA''" "lit ''ACCT''" "lit ''TBA''" "[]"]
      C6_course_level [of "lit ''ACCT 1'' @ [178]" "lit ''ACCT''" "[49, 178]" "[]"]
      C6_course_level [of "lit ''ACCT''" "[]" "[]" "[]"]
    by (simp add: 1 2 3 4 5 6 t1 t2 t3 v v5 d i j n)
qed

section \<open>Field classifier\<close>

lemma startswith_Cons: "startswith s (c # p) \<Longrightarrow> \<exists>t. s = c # t"
  by (cases s) (simp_all add: startswith_def)

lemma startswith_mem: "startswith s p \<Longrightarrow> set p \<subseteq> set s"
  by (metis set_take_subset startswith_def)

lemma lower_cp_colon: "lower_cp c = 58 \<longleftrightarrow> c = 58"
  by (auto simp: lower_cp_def)

lemma colon_lower: "58 \<in> set (lower b) \<longleftrightarrow> 58 \<in> set b"
  by (auto simp: lower_def lower_cp_colon image_iff)

lemma split_chr_not_Nil: "split_chr sep s \<noteq> []"
  by (induction s) simp_all

lemma hd_split_chr: "hd (split_chr sep s) = takeWhile (\<lambda>c. c \<noteq> sep) s"
  by (induction s) simp_all

lemma tl_split_chr:
  "tl (split_chr sep s) =
     (if sep \<in> set s then split_chr sep (tl (dropWhile (\<lambda>c. c \<noteq> sep) s)) else [])"
  by (induction s) auto

lemma split_chr_absent: "sep \<notin> set s \<Longrightarrow> split_chr sep s = [s]"
  by (induction s) simp_all

lemma split_chr_second:
  assumes "sep \<in> set s"
  shows "2 \<le> length (split_chr sep s)"
    and "split_chr sep s ! 1 = takeWhile (\<lambda>c. c \<noteq> sep) (tl (dropWhile (\<lambda>c. c \<noteq> sep) s))"
proof -
  let ?r = "tl (dropWhile (\<lambda>c. c \<noteq> sep) s)"
  have "split_chr sep s = hd (split_chr sep s) # tl (split_chr sep s)"
    by (simp add: split_chr_not_Nil)
  then have e: "split_chr sep s = hd (split_chr sep s) # split_chr sep ?r"
    using assms by (simp add: tl_split_chr)
  have n: "split_chr sep ?r = hd (split_chr sep ?r) # tl (split_chr sep ?r)"
    by (simp add: split_chr_not_Nil)
  show "2 \<le> length (split_chr sep s)"
    by (subst e, subst n) simp
  show "split_chr sep s ! 1 = takeWhile (\<lambda>c. c \<noteq> sep) ?r"
    by (subst e) (simp add: hd_conv_nth [symmetric] split_chr_not_Nil hd_split_chr)
qed

text \<open>A block that starts with "typically offered" falls under none of the four exact rules,
  nor under the "prereq" prefix.\<close>

lemma typically_not_others:
  assumes "startswith s (lit ''typically offered'')"
  shows "\<not> startswith s (lit ''prereq'')"
    and "s \<noteq> lit ''undergraduate course not available for graduate credit''"
    and "s \<noteq> lit ''graduate-level''"
    and "s \<noteq> lit ''400-level undergraduate course available for graduate credit''"
    and "s \<noteq> lit ''one or more sections may be offered in any online format.''"
    and "s \<noteq> lit ''department consent required''"
proof -
  have "startswith s (116 # lit ''ypically offered'')"
    using assms by (simp add: lit_def)
  then obtain t where s: "s = 116 # t"
    using startswith_Cons by blast
  show "\<not> startswith s (lit ''prereq'')"
    and "s \<noteq> lit ''undergraduate course not available for graduate credit''"
    and "s \<noteq> lit ''graduate-level''"
    and "s \<noteq> lit ''400-level undergraduate course available for graduate credit''"
    and "s \<noteq> lit ''one or more sections may be offered in any online format.''"
    and "s \<noteq> lit ''department consent required''"
    by (simp_all add: s lit_def startswith_def)
qed

lemma startswith_append: "startswith s (p @ q) \<Longrightarrow> startswith s p"
proof -
  assume "startswith s (p @ q)"
  then have "take (length p) (take (length (p @ q)) s) = take (length p) (p @ q)"
    by (simp add: startswith_def)
  then show ?thesis
    by (simp add: startswith_def min_def)
qed

lemma startswith_colon_prefix:
  "startswith s (lit ''typically offered:'') \<Longrightarrow> startswith s (lit ''typically offered'')"
  using startswith_append [of s "lit ''typically offered''" "[58]"]
  by (simp add: lit_def)

lemma startswith_colon_mem:
  assumes "startswith (lower b) (lit ''typically offered:'')"
  shows "58 \<in> set b"
proof -
  have "58 \<in> set (lit ''typically offered:'')"
    by (simp add: lit_def)
  then have "58 \<in> set (lower b)"
    using startswith_mem [OF assms] by blast
  then show ?thesis by (simp add: colon_lower)
qed

lemma reprocess_block_typically:
  assumes "startswith (lower block) (lit ''typically offered'')"
    and "\<not> contains (lower block) (lit ''requisite'')"
    and "58 \<in> set block"
  shows "reprocess_block code (pc, out) block =
     Inr (pc\<lparr>pc_typically_offered :=
            strip (takeWhile (\<lambda>c. c \<noteq> 58) (tl (dropWhile (\<lambda>c. c \<noteq> 58) block)))\<rparr>, out)"
proof -
  have "\<not> length (split_chr 58 block) < 2"
    using split_chr_second(1) [OF assms(3)] by simp
  then show ?thesis
    using assms(1,2) typically_not_others [OF assms(1)] split_chr_second(2) [OF assms(3)]
    by (simp add: reprocess_block_def Let_def)
qed

lemma reprocess_block_no_colon:
  assumes "startswith (lower block) (lit ''typically offered'')"
    and "\<not> contains (lower block) (lit ''requisite'')"
    and "58 \<notin> set block"
  shows "reprocess_block code (pc, out) block = Inl IndexError"
  using assms(1,2) typically_not_others [OF assms(1)] split_chr_absent [OF assms(3)]
  by (simp add: reprocess_block_def Let_def)

lemma main_block_typically:
  assumes "startswith (lower block) (lit ''typically offered:'')"
    and "\<not> contains (lower block) (lit ''requisite'')"
  shows "main_block code (mc, out) block =
     Inr (mc\<lparr>mc_typically_offered :=
            Some (strip (takeWhile (\<lambda>c. c \<noteq> 58) (tl (dropWhile (\<lambda>c. c \<noteq> 58) block))))\<rparr>, out)"
proof -
  have t: "startswith (lower block) (lit ''typically offered'')"
    using assms(1) by (rule startswith_colon_prefix)
  have c: "58 \<in> set block"
    using assms(1) by (rule startswith_colon_mem)
  have "\<not> length (split_chr 58 block) < 2"
    using split_chr_second(1) [OF c] by simp
  then show ?thesis
    using assms typically_not_others [OF t] split_chr_second(2) [OF c]
    by (simp add: main_block_def Let_def)
qed

lemma main_block_unknown:
  assumes "startswith (lower block) (lit ''typically offered'')"
    and "\<not> startswith (lower block) (lit ''typically offered:'')"
    and "\<not> contains (lower block) (lit ''requisite'')"
  shows "main_block code (mc, out) block =
     Inr (mc, out @ [lit ''unknown block in '' @ code @ lit '': '' @ block])"
  using assms typically_not_others [OF assms(1)]
  by (simp add: main_block_def Let_def)

lemma classifier_step_agree:
  assumes h: "startswith (lower b) (lit ''typically offered'') \<longrightarrow>
      startswith (lower b) (lit ''typically offered:'') \<or> contains (lower b) (lit ''requisite'')"
    and f: "main_fields mc = processed_fields pc"
  shows "\<exists>mc' out1' pc' out2'.
      main_block code (mc, out1) b = Inr (mc', out1') \<and>
      reprocess_block code (pc, out2) b = Inr (pc', out2') \<and>
      main_fields mc' = processed_fields pc'"
proof (cases "contains (lower b) (lit ''requisite'') \<or> startswith (lower b) (lit ''prereq'')")
  case True
  then show ?thesis
    using f by (simp add: main_block_def reprocess_block_def main_fields_def processed_fields_def)
next
  case False
  note nreq = this
  show ?thesis
  proof (cases "startswith (lower b) (lit ''typically offered'')")
    case True
    then have c: "startswith (lower b) (lit ''typically offered:'')"
      using h nreq by blast
    have m: "58 \<in> set b"
      using c by (rule startswith_colon_mem)
    show ?thesis
      using f nreq main_block_typically [OF c, of code mc out1]
        reprocess_block_typically [OF True _ m, of code pc out2]
      by (simp add: main_fields_def processed_fields_def)
  next
    case False
    then have "\<not> startswith (lower b) (lit ''typically offered:'')"
      using startswith_colon_prefix by blast
    then show ?thesis
      using f nreq False
      by (simp add: main_block_def reprocess_block_def main_fields_def processed_fields_def)
  qed
qed

lemma classifiers_agree:
  assumes "\<forall>b\<in>set blocks. startswith (lower b) (lit ''typically offered'') \<longrightarrow>
      startswith (lower b) (lit ''typically offered:'') \<or> contains (lower b) (lit ''requisite'')"
    and "main_fields mc = processed_fields pc"
  shows "\<exists>mc' out1' pc' out2'.
      for_each (main_block code) (mc, out1) blocks = Inr (mc', out1') \<and>
      for_each (reprocess_block code) (pc, out2) blocks = Inr (pc', out2') \<and>
      main_fields mc' = processed_fields pc'"
  using assms
proof (induction blocks arbitrary: mc pc out1 out2)
  case Nil
  then show ?case by simp
next
  case (Cons b blocks)
  from Cons.prems obtain mc1 o1 pc1 o2 where
    s: "main_block code (mc, out1) b = Inr (mc1, o1)"
      "reprocess_block code (pc, out2) b = Inr (pc1, o2)"
      "main_fields mc1 = processed_fields pc1"
    using classifier_step_agree [of b mc pc code out1 out2] by auto
  from Cons.IH [of mc1 pc1 o1 o2] Cons.prems(1) s(3)
  show ?case by (simp add: s(1,2))
qed

lemma reprocess_block_prereq:
  "contains (lower block) (lit ''requisite'') \<or> startswith (lower block) (lit ''prereq'') \<Longrightarrow>
   reprocess_block code (pc, out) block = Inr (pc\<lparr>pc_prerequisites := block\<rparr>, out)"
  by (simp add: reprocess_block_def)

lemmas lower_eval = lit_def lower_def lower_cp_def startswith_def

lemma for_each_single: "for_each body s [x] = body s x"
  by (simp split: sum.splits)

text \<open>
  C1, as the specification states it: every block whose lowercase form starts with
  "typically offered", with or without a colon, gets the trimmed text after the first
  colon as its typical offering, and classifying it does not fail. In reprocess.py a
  block with no colon raises \<^verbatim>\<open>IndexError\<close> at \<^verbatim>\<open>block.split(":")[1]\<close>; a block with
  two colons is cut at the second one; and a block that also contains "requisite" is
  taken by the first rule.
\<close>

theorem C1_typically_offered_counterexample:
  "startswith (lower (lit ''Typically offered'')) (lit ''typically offered'') \<and>
   reprocess_block (lit ''ACCT 201A'') (pc_acct_201a, []) (lit ''Typically offered'') =
     Inl IndexError \<and>
   startswith (lower (lit ''Typically Offered: Fall: odd years'')) (lit ''typically offered'') \<and>
   reprocess_block (lit ''ACCT 201A'') (pc_acct_201a, []) (lit ''Typically Offered: Fall: odd years'') =
     Inr (pc_acct_201a\<lparr>pc_typically_offered := lit ''Fall''\<rparr>, []) \<and>
   strip (tl (dropWhile (\<lambda>c. c \<noteq> 58) (lit ''Typically Offered: Fall: odd years''))) =
     lit ''Fall: odd years'' \<and>
   startswith (lower (lit ''Typically offered: see prerequisite'')) (lit ''typically offered'') \<and>
   reprocess_block (lit ''ACCT 201A'') (pc_acct_201a, []) (lit ''Typically offered: see prerequisite'') =
     Inr (pc_acct_201a\<lparr>pc_prerequisites := lit ''Typically offered: see prerequisite''\<rparr>, [])"
proof -
  have a1: "startswith (lower (lit ''Typically offered'')) (lit ''typically offered'')"
    by (simp add: lower_eval)
  have a2: "\<not> contains (lower (lit ''Typically offered'')) (lit ''requisite'')"
    by (simp add: lower_eval)
  have a3: "58 \<notin> set (lit ''Typically offered'')"
    by (simp add: lit_def)
  have b1: "startswith (lower (lit ''Typically Offered: Fall: odd years'')) (lit ''typically offered'')"
    by (simp add: lower_eval)
  have b2: "\<not> contains (lower (lit ''Typically Offered: Fall: odd years'')) (lit ''requisite'')"
    by (simp add: lower_eval)
  have b3: "58 \<in> set (lit ''Typically Offered: Fall: odd years'')"
    by (simp add: lit_def)
  have b4: "strip (takeWhile (\<lambda>c. c \<noteq> 58)
        (tl (dropWhile (\<lambda>c. c \<noteq> 58) (lit ''Typically Offered: Fall: odd years'')))) = lit ''Fall''"
    by (simp add: lit_def strip_defs)
  have b5: "strip (tl (dropWhile (\<lambda>c. c \<noteq> 58) (lit ''Typically Offered: Fall: odd years''))) =
      lit ''Fall: odd years''"
    by (simp add: lit_def strip_defs)
  have c1: "startswith (lower (lit ''Typically offered: see prerequisite'')) (lit ''typically offered'')"
    by (simp add: lower_eval)
  have c2: "contains (lower (lit ''Typically offered: see prerequisite'')) (lit ''requisite'')"
    by (simp add: lower_eval)
  show ?thesis
    using a1 b1 b5 c1
      reprocess_block_no_colon [OF a1 a2 a3, of "lit ''ACCT 201A''" pc_acct_201a "[]"]
      reprocess_block_typically [OF b1 b2 b3, of "lit ''ACCT 201A''" pc_acct_201a "[]"]
      reprocess_block_prereq [of "lit ''Typically offered: see prerequisite''" "lit ''ACCT 201A''"
        pc_acct_201a "[]"] c2
    by (simp only: b4 simp_thms)
qed

text \<open>
  C1, amended: for every block whose lowercase form starts with "typically offered",
  that does not contain "requisite" and that contains a colon, the classifier of
  reprocess.py assigns to the typical offering the trimmed text between the first colon
  and the next one (all the text after the first colon when there is no other). The
  classifier of main.py does the same when the lowercase form starts with
  "typically offered:"; any other block that starts with "typically offered" and
  does not contain "requisite" it reports as unknown and leaves the fields as they are.
\<close>

theorem C1_typically_offered:
  "(startswith (lower block) (lit ''typically offered'') \<and>
    \<not> contains (lower block) (lit ''requisite'') \<and> 58 \<in> set block \<longrightarrow>
      reprocess_block code (pc, out) block =
        Inr (pc\<lparr>pc_typically_offered :=
               strip (takeWhile (\<lambda>c. c \<noteq> 58) (tl (dropWhile (\<lambda>c. c \<noteq> 58) block)))\<rparr>, out)) \<and>
   (startswith (lower block) (lit ''typically offered:'') \<and>
    \<not> contains (lower block) (lit ''requisite'') \<longrightarrow>
      main_block code (mc, out) block =
        Inr (mc\<lparr>mc_typically_offered :=
               Some (strip (takeWhile (\<lambda>c. c \<noteq> 58) (tl (dropWhile (\<lambda>c. c \<noteq> 58) block))))\<rparr>, out)) \<and>
   (startswith (lower block) (lit ''typically offered'') \<and>
    \<not> startswith (lower block) (lit ''typically offered:'') \<and>
    \<not> contains (lower block) (lit ''requisite'') \<longrightarrow>
      main_block code (mc, out) block =
        Inr (mc, out @ [lit ''unknown block in '' @ code @ lit '': '' @ block]))"
  using reprocess_block_typically [of block code pc out]
    main_block_typically [of block code mc out] main_block_unknown [of block code mc out]
  by blast

theorem C1_typically_offered_witness:
  "reprocess_block (lit ''ACCT 201A'') (pc_acct_201a, []) (lit ''Typically Offered: Fall/Spring'') =
     Inr (pc_acct_201a\<lparr>pc_typically_offered := lit ''Fall/Spring''\<rparr>, []) \<and>
   main_block (lit ''ACCT 201A'') (mc_acct_201a, []) (lit ''Typically Offered: Fall/Spring'') =
     Inr (mc_acct_201a\<lparr>mc_typically_offered := Some (lit ''Fall/Spring'')\<rparr>, []) \<and>
   main_block (lit ''ACCT 201A'') (mc_acct_201a, []) (lit ''Typically offered in Fall'') =
     Inr (mc_acct_201a, [lit ''unknown block in ACCT 201A: Typically offered in Fall''])"
proof -
  have a1: "startswith (lower (lit ''Typically Offered: Fall/Spring'')) (lit ''typically offered'')"
    and a1': "startswith (lower (lit ''Typically Offered: Fall/Spring'')) (lit ''typically offered:'')"
    by (simp_all add: lower_eval)
  have a2: "\<not> contains (lower (lit ''Typically Offered: Fall/Spring'')) (lit ''requisite'')"
    by (simp add: lower_eval)
  have a3: "58 \<in> set (lit ''Typically Offered: Fall/Spring'')"
    by (simp add: lit_def)
  have a4: "strip (takeWhile (\<lambda>c. c \<noteq> 58)
        (tl (dropWhile (\<lambda>c. c \<noteq> 58) (lit ''Typically Offered: Fall/Spring'')))) = lit ''Fall/Spring''"
    by (simp add: lit_def strip_defs)
  have b1: "startswith (lower (lit ''Typically offered in Fall'')) (lit ''typically offered'')"
    and b1': "\<not> startswith (lower (lit ''Typically offered in Fall'')) (lit ''typically offered:'')"
    by (simp_all add: lower_eval)
  have b2: "\<not> contains (lower (lit ''Typically offered in Fall'')) (lit ''requisite'')"
    by (simp add: lower_eval)
  have b3: "lit ''unknown block in '' @ lit ''ACCT 201A'' @ lit '': '' @ lit ''Typically offered in Fall'' =
      lit ''unknown block in ACCT 201A: Typically offered in Fall''"
    by (simp add: lit_def)
  show ?thesis
    using C1_typically_offered [of "lit ''Typically Offered: Fall/Spring''" "lit ''ACCT 201A''"
        pc_acct_201a "[]" mc_acct_201a]
      C1_typically_offered [of "lit ''Typically offered in Fall''" "lit ''ACCT 201A''"
        pc_acct_201a "[]" mc_acct_201a]
      a1 a1' a2 a3 b1 b1' b2
    by (simp only: a4 b3 simp_thms append_Nil)
qed

text \<open>
  C10, as stated: for every list of blocks the loop of main.py and the loop of
  reprocess.py assign the same fields. They test different prefixes in the sixth rule
  ("typically offered:" in main.py, "typically offered" in reprocess.py): for the
  block "Typically offered Fall: odd years" main.py reports an unknown block and
  reprocess.py assigns "odd years"; for "Typically offered in Fall" main.py reports
  an unknown block and reprocess.py raises.
\<close>

theorem C10_classifiers_agree_counterexample:
  "for_each (main_block (lit ''ACCT 201A'')) (mc_acct_201a, [])
       [lit ''Typically offered Fall: odd years''] =
     Inr (mc_acct_201a, [lit ''unknown block in '' @ lit ''ACCT 201A'' @ lit '': '' @
       lit ''Typically offered Fall: odd years'']) \<and>
   for_each (reprocess_block (lit ''ACCT 201A'')) (pc_acct_201a, [])
       [lit ''Typically offered Fall: odd years''] =
     Inr (pc_acct_201a\<lparr>pc_typically_offered := lit ''odd years''\<rparr>, []) \<and>
   main_fields mc_acct_201a = processed_fields pc_acct_201a \<and>
   main_fields mc_acct_201a \<noteq>
     processed_fields (pc_acct_201a\<lparr>pc_typically_offered := lit ''odd years''\<rparr>) \<and>
   for_each (main_block (lit ''ACCT 201A'')) (mc_acct_201a, []) [lit ''Typically offered in Fall''] =
     Inr (mc_acct_201a, [lit ''unknown block in '' @ lit ''ACCT 201A'' @ lit '': '' @
       lit ''Typically offered in Fall'']) \<and>
   for_each (reprocess_block (lit ''ACCT 201A'')) (pc_acct_201a, []) [lit ''Typically offered in Fall''] =
     Inl IndexError"
proof -
  have a1: "startswith (lower (lit ''Typically offered Fall: odd years'')) (lit ''typically offered'')"
    and a1': "\<not> startswith (lower (lit ''Typically offered Fall: odd years'')) (lit ''typically offered:'')"
    by (simp_all add: lower_eval)
  have a2: "\<not> contains (lower (lit ''Typically offered Fall: odd years'')) (lit ''requisite'')"
    by (simp add: lower_eval)
  have a3: "58 \<in> set (lit ''Typically offered Fall: odd years'')"
    by (simp add: lit_def)
  have a4: "strip (takeWhile (\<lambda>c. c \<noteq> 58)
        (tl (dropWhile (\<lambda>c. c \<noteq> 58) (lit ''Typically offered Fall: odd years'')))) = lit ''odd years''"
    by (simp add: lit_def strip_defs)
  have b1: "startswith (lower (lit ''Typically offered in Fall'')) (lit ''typically offered'')"
    and b1': "\<not> startswith (lower (lit ''Typically offered in Fall'')) (lit ''typically offered:'')"
    by (simp_all add: lower_eval)
  have b2: "\<not> contains (lower (lit ''Typically offered in Fall'')) (lit ''requisite'')"
    by (simp add: lower_eval)
  have b3: "58 \<notin> set (lit ''Typically offered in Fall'')"
    by (simp add: lit_def)
  have f: "main_fields mc_acct_201a = processed_fields pc_acct_201a"
    by (simp add: main_fields_def processed_fields_def mc_acct_201a_def pc_acct_201a_def)
  have g: "main_fields mc_acct_201a \<noteq>
     processed_fields (pc_acct_201a\<lparr>pc_typically_offered := lit ''odd years''\<rparr>)"
    by (simp add: main_fields_def processed_fields_def mc_acct_201a_def pc_acct_201a_def lit_def)
  show ?thesis
    using f g
      main_block_unknown [OF a1 a1' a2, of "lit ''ACCT 201A''" mc_acct_201a "[]"]
      reprocess_block_typically [OF a1 a2 a3, of "lit ''ACCT 201A''" pc_acct_201a "[]"]
      main_block_unknown [OF b1 b1' b2, of "lit ''ACCT 201A''" mc_acct_201a "[]"]
      reprocess_block_no_colon [OF b1 b2 b3, of "lit ''ACCT 201A''" pc_acct_201a "[]"]
    by (simp only: for_each_single a4 simp_thms append_Nil)
qed

text \<open>
  C10, amended: for every list of blocks in which each block whose lowercase form
  starts with "typically offered" also starts with "typically offered:" or contains
  "requisite", both loops run to the end without raising and assign the same
  prerequisites, grad-credit, online, consent and typical-offering fields (a key absent
  from main.py's dictionary read as the default of reprocess.py), from starting records
  that agree on these fields.
\<close>

theorem C10_classifiers_agree:
  "main_fields mc = processed_fields pc \<and>
   (\<forall>b\<in>set blocks. startswith (lower b) (lit ''typically offered'') \<longrightarrow>
      startswith (lower b) (lit ''typically offered:'') \<or> contains (lower b) (lit ''requisite'')) \<longrightarrow>
   (\<exists>mc' out1' pc' out2'.
      for_each (main_block code) (mc, out1) blocks = Inr (mc', out1') \<and>
      for_each (reprocess_block code) (pc, out2) blocks = Inr (pc', out2') \<and>
      main_fields mc' = processed_fields pc')"
  using classifiers_agree [of blocks mc pc code out1 out2] by blast

theorem C10_classifiers_agree_witness:
  "\<exists>mc' out1' pc' out2'.
      for_each (main_block (lit ''ACCT 201A'')) (mc_acct_201a, []) acct_201a_blocks = Inr (mc', out1') \<and>
      for_each (reprocess_block (lit ''ACCT 201A'')) (pc_acct_201a, []) acct_201a_blocks = Inr (pc', out2') \<and>
      main_fields mc' = processed_fields pc'"
proof -
  have f: "main_fields mc_acct_201a = processed_fields pc_acct_201a"
    by (simp add: main_fields_def processed_fields_def mc_acct_201a_def pc_acct_201a_def)
  have 1: "contains (lower (lit ''Prerequisite: ACCT 101'')) (lit ''requisite'')"
    by (simp add: lower_eval)
  have 2: "\<not> startswith (lower (lit ''Department consent required'')) (lit ''typically offered'')"
    by (simp add: lower_eval)
  have 3: "startswith (lower (lit ''Typically Offered: Fall/Spring'')) (lit ''typically offered:'')"
    by (simp add: lower_eval)
  have "\<forall>b\<in>set acct_201a_blocks. startswith (lower b) (lit ''typically offered'') \<longrightarrow>
      startswith (lower b) (lit ''typically offered:'') \<or> contains (lower b) (lit ''requisite'')"
    using 1 2 3 by (simp add: acct_201a_blocks_def)
  then show ?thesis
    using f C10_classifiers_agree [of mc_acct_201a pc_acct_201a acct_201a_blocks
        "lit ''ACCT 201A''" "[]" "[]"]
    by blast
qed

section \<open>Text normalizer\<close>

lemma replace_keys_distinct: "distinct (map fst REPLACE_CHAR_MAP)"
  by (simp add: REPLACE_CHAR_MAP_def)

lemma replace_targets_ascii:
  "\<forall>(k, t)\<in>set REPLACE_CHAR_MAP. 127 < k \<and> t \<noteq> [] \<and> (\<forall>c\<in>set t. c \<le> 127)"
  by (simp add: REPLACE_CHAR_MAP_def lit_def)

lemma replace_targets_visible:
  "\<forall>(k, t)\<in>set REPLACE_CHAR_MAP. k = 160 \<or> (t \<noteq> [] \<and> (\<forall>c\<in>set t. \<not> isspace c))"
  by (simp add: REPLACE_CHAR_MAP_def lit_def isspace_def)

lemma unknown_chars_set:
  "set (unknown_chars text) = {c \<in> set text. 127 < c \<and> c \<notin> fst ` set REPLACE_CHAR_MAP}"
  by (auto simp: unknown_chars_def map_of_eq_None_iff)

lemma translate_nonascii:
  "{c \<in> set (translate s). 127 < c} = {c \<in> set s. 127 < c \<and> c \<notin> fst ` set REPLACE_CHAR_MAP}"
proof -
  let ?f = "\<lambda>c. case map_of REPLACE_CHAR_MAP c of Some t \<Rightarrow> t | None \<Rightarrow> [c]"
  have t: "\<not> 127 < c" if "map_of REPLACE_CHAR_MAP k = Some t" "c \<in> set t" for k t c
    using replace_targets_ascii map_of_SomeD [OF that(1)] that(2) by fastforce
  have f: "{c \<in> set (?f k). 127 < c} =
      (if 127 < k \<and> k \<notin> fst ` set REPLACE_CHAR_MAP then {k} else {})" for k
  proof (cases "map_of REPLACE_CHAR_MAP k")
    case None
    have "k \<notin> fst ` set REPLACE_CHAR_MAP"
      using None by (simp add: map_of_eq_None_iff)
    then show ?thesis unfolding None by auto
  next
    case (Some u)
    then have "k \<in> fst ` set REPLACE_CHAR_MAP"
      by (metis map_of_eq_None_iff option.distinct(1))
    then show ?thesis unfolding Some using t [OF Some] by auto
  qed
  have "{c \<in> set (translate s). 127 < c} = (\<Union>k\<in>set s. {c \<in> set (?f k). 127 < c})"
    by (auto simp: translate_def)
  also have "\<dots> = {c \<in> set s. 127 < c \<and> c \<notin> fst ` set REPLACE_CHAR_MAP}"
    unfolding f by auto
  finally show ?thesis .
qed

text \<open>
  C9, as the specification states it: the substitution table is one-to-one. Two keys, the
  left and the right double quotation mark, have the same target, and the targets of
  the copyright and registered signs are three characters long.
\<close>

theorem C9_normalizer_counterexample:
  "map_of REPLACE_CHAR_MAP 0x201c = Some [34] \<and> map_of REPLACE_CHAR_MAP 0x201d = Some [34] \<and>
   (0x201c :: nat) \<noteq> 0x201d \<and> map_of REPLACE_CHAR_MAP 0xa9 = Some (lit ''(c)'') \<and>
   length (lit ''(c)'') = 3"
  by (simp add: REPLACE_CHAR_MAP_def lit_def)

text \<open>
  C9, amended: the substitution table maps each of its twelve keys, all above the ASCII
  range, to a non-empty string of ASCII characters (not one-to-one: two keys share a
  target); and for every input string one invocation of the normalizer emits exactly one
  diagnostic for each distinct character that is above the ASCII range and not a key,
  in increasing order of code point. These are exactly the characters above the ASCII
  range left in the returned text.
\<close>

theorem C9_normalizer:
  "distinct (map fst REPLACE_CHAR_MAP) \<and>
   (\<forall>(k, t)\<in>set REPLACE_CHAR_MAP. 127 < k \<and> t \<noteq> [] \<and> (\<forall>c\<in>set t. c \<le> 127)) \<and>
   distinct (fst (clean_text text)) \<and> sorted (fst (clean_text text)) \<and>
   set (fst (clean_text text)) = {c \<in> set text. 127 < c \<and> c \<notin> fst ` set REPLACE_CHAR_MAP} \<and>
   {c \<in> set (snd (clean_text text)). 127 < c} = set (fst (clean_text text))"
  using replace_keys_distinct replace_targets_ascii unknown_chars_set [of "text"]
    translate_nonascii [of "text"]
  by (simp add: clean_text_def unknown_chars_def)

theorem C9_normalizer_witness:
  "clean_text [67, 0x2014, 0xe9, 0x201c, 300, 0x2014, 0x201d] = ([300, 0x2014], [67, 0x2014, 101, 34, 300, 0x2014, 34])"
proof -
  have "fst (clean_text [67, 0x2014, 0xe9, 0x201c, 300, 0x2014, 0x201d]) = [300, 0x2014]"
    by (simp add: clean_text_def unknown_chars_def REPLACE_CHAR_MAP_def lit_def)
  moreover have "snd (clean_text [67, 0x2014, 0xe9, 0x201c, 300, 0x2014, 0x201d]) =
      [67, 0x2014, 101, 34, 300, 0x2014, 34]"
    by (simp add: clean_text_def translate_def REPLACE_CHAR_MAP_def lit_def)
  ultimately show ?thesis
    using C9_normalizer [of "[67, 0x2014, 0xe9, 0x201c, 300, 0x2014, 0x201d]"]
    by (simp add: prod_eq_iff)
qed

section \<open>Block segmenter\<close>

lemma lstrip_eq_Nil: "lstrip s = [] \<longleftrightarrow> (\<forall>x\<in>set s. isspace x)"
  by (simp add: lstrip_def dropWhile_eq_Nil_conv)

lemma rstrip_eq_Nil: "rstrip s = [] \<longleftrightarrow> (\<forall>x\<in>set s. isspace x)"
  by (simp add: rstrip_def dropWhile_eq_Nil_conv)

lemma hd_lstrip: "lstrip s \<noteq> [] \<Longrightarrow> \<not> isspace (hd (lstrip s))"
  unfolding lstrip_def by (rule hd_dropWhile)

lemma strip_eq_Nil: "strip s = [] \<longleftrightarrow> (\<forall>x\<in>set s. isspace x)"
proof
  assume "strip s = []"
  then have a: "\<forall>x\<in>set (lstrip s). isspace x"
    by (simp add: strip_def rstrip_eq_Nil)
  have "lstrip s = []"
  proof (rule ccontr)
    assume n: "lstrip s \<noteq> []"
    then have "hd (lstrip s) \<in> set (lstrip s)" by simp
    then show False using a hd_lstrip [OF n] by blast
  qed
  then show "\<forall>x\<in>set s. isspace x" by (simp add: lstrip_eq_Nil)
next
  assume "\<forall>x\<in>set s. isspace x"
  then have "lstrip s = []" by (simp add: lstrip_eq_Nil)
  then show "strip s = []" by (simp add: strip_def rstrip_def)
qed

lemma rstrip_decomp: "t = rstrip t @ rev (takeWhile isspace (rev t))"
proof -
  have "t = rev (rev t)" by simp
  also have "\<dots> = rev (takeWhile isspace (rev t) @ dropWhile isspace (rev t))"
    by (simp only: takeWhile_dropWhile_id)
  also have "\<dots> = rstrip t @ rev (takeWhile isspace (rev t))"
    by (simp only: rev_append rstrip_def)
  finally show ?thesis .
qed

lemma last_rstrip: "rstrip t \<noteq> [] \<Longrightarrow> \<not> isspace (last (rstrip t))"
proof -
  assume n: "rstrip t \<noteq> []"
  then have "dropWhile isspace (rev t) \<noteq> []" by (simp add: rstrip_def)
  then have "\<not> isspace (hd (dropWhile isspace (rev t)))" by (rule hd_dropWhile)
  then show ?thesis using n by (simp add: rstrip_def last_rev)
qed

lemma hd_rstrip: "rstrip t \<noteq> [] \<Longrightarrow> hd (rstrip t) = hd t"
  using rstrip_decomp [of t] by (metis hd_append2)

lemma strip_edges:
  assumes "strip s \<noteq> []"
  shows "\<not> isspace (hd (strip s))" and "\<not> isspace (last (strip s))"
proof -
  have l: "lstrip s \<noteq> []"
    using assms by (auto simp: strip_def rstrip_def)
  have "hd (strip s) = hd (lstrip s)"
    using assms hd_rstrip [of "lstrip s"] by (simp add: strip_def)
  then show "\<not> isspace (hd (strip s))"
    using hd_lstrip [OF l] by simp
  show "\<not> isspace (last (strip s))"
    using assms last_rstrip [of "lstrip s"] by (simp add: strip_def)
qed

lemma strip_strip: "strip (strip s) = strip s"
  using strip_edges [of s] strip_id [of "strip s"] by blast

lemma visible_texts_Cons:
  "visible_texts (n # ns) =
     (if strip (node_text n) \<noteq> [] then strip (node_text n) # visible_texts ns else visible_texts ns)"
  by (simp add: visible_texts_def)

lemma segment_loop_no_br:
  "Br \<notin> set siblings \<Longrightarrow>
   segment_loop clean blocks cur siblings =
     (if strip (cur @ spaced (visible_texts siblings)) \<noteq> []
      then blocks @ [clean (strip (cur @ spaced (visible_texts siblings)))] else blocks)"
proof (induction siblings arbitrary: cur)
  case Nil
  then show ?case by (simp add: visible_texts_def spaced_def)
next
  case (Cons n ns)
  then obtain t where n: "n = Other t" by (cases n) auto
  from Cons.prems have "Br \<notin> set ns" by simp
  note ih = Cons.IH [OF this]
  show ?case
    by (simp add: n ih visible_texts_Cons spaced_def Let_def)
qed

lemma space_join_Cons: "space_join (t # ts) = t @ spaced ts"
  by (induction ts arbitrary: t) (simp_all add: spaced_def)

lemma spaced_Cons: "spaced (t # ts) = 32 # space_join (t # ts)"
  by (simp add: space_join_Cons) (simp add: spaced_def)

lemma visible_texts_edges:
  "t \<in> set (visible_texts siblings) \<Longrightarrow> t \<noteq> [] \<and> \<not> isspace (hd t) \<and> \<not> isspace (last t)"
  using strip_edges by (auto simp: visible_texts_def)

lemma space_join_edges:
  assumes "\<forall>t\<in>set ts. t \<noteq> [] \<and> \<not> isspace (hd t) \<and> \<not> isspace (last t)" and "ts \<noteq> []"
  shows "space_join ts \<noteq> [] \<and> \<not> isspace (hd (space_join ts)) \<and> \<not> isspace (last (space_join ts))"
  using assms
proof (induction ts rule: space_join.induct)
  case 1
  then show ?case by simp
next
  case (2 t)
  then show ?case by simp
next
  case (3 t u ts)
  then show ?case by simp
qed

lemma strip_spaced:
  assumes "\<forall>t\<in>set ts. t \<noteq> [] \<and> \<not> isspace (hd t) \<and> \<not> isspace (last t)"
  shows "strip (spaced ts) = space_join ts" and "strip (space_join ts) = space_join ts"
proof -
  show j: "strip (space_join ts) = space_join ts"
  proof (cases ts)
    case Nil
    then show ?thesis by (simp add: strip_defs)
  next
    case (Cons t us)
    then show ?thesis
      using space_join_edges [OF assms] by (simp add: strip_id)
  qed
  show "strip (spaced ts) = space_join ts"
  proof (cases ts)
    case Nil
    then show ?thesis by (simp add: spaced_def strip_defs)
  next
    case (Cons t us)
    have "strip (spaced ts) = strip (space_join ts)"
      unfolding Cons spaced_Cons by (simp add: strip_def lstrip_def isspace_def)
    then show ?thesis using j by simp
  qed
qed

lemma segment_no_br:
  assumes "Br \<notin> set siblings"
  shows "segment_loop clean [] [] siblings =
     (if strip (space_join (visible_texts siblings)) = [] then []
      else [clean (strip (space_join (visible_texts siblings)))])"
proof -
  have e: "\<forall>t\<in>set (visible_texts siblings). t \<noteq> [] \<and> \<not> isspace (hd t) \<and> \<not> isspace (last t)"
    using visible_texts_edges by blast
  show ?thesis
    using segment_loop_no_br [OF assms, of clean "[]" "[]"] strip_spaced [OF e]
    by simp
qed

text \<open>No emitted block is empty after trimming.\<close>

lemma segment_loop_nonempty:
  assumes c: "\<And>s. strip s \<noteq> [] \<Longrightarrow> strip (clean (strip s)) \<noteq> []"
  shows "\<forall>b\<in>set blocks. strip b \<noteq> [] \<Longrightarrow>
    \<forall>b\<in>set (segment_loop clean blocks cur siblings). strip b \<noteq> []"
proof (induction siblings arbitrary: blocks cur)
  case Nil
  show ?case
  proof (cases "strip cur = []")
    case True
    then show ?thesis using Nil by simp
  next
    case False
    then show ?thesis using Nil c [OF False] by simp
  qed
next
  case (Cons n ns)
  show ?case
  proof (cases n)
    case Br
    show ?thesis
    proof (cases "strip cur = []")
      case True
      then have "segment_loop clean blocks cur (n # ns) = segment_loop clean blocks cur ns"
        by (simp add: Br)
      then show ?thesis using Cons.IH [OF Cons.prems] by simp
    next
      case False
      then have e: "segment_loop clean blocks cur (n # ns) =
          segment_loop clean (blocks @ [clean (strip cur)]) [] ns"
        by (simp add: Br)
      have "\<forall>b\<in>set (blocks @ [clean (strip cur)]). strip b \<noteq> []"
        using Cons.prems c [OF False] by simp
      then show ?thesis unfolding e by (rule Cons.IH)
    qed
  next
    case (Other t)
    show ?thesis
    proof (cases "strip t = []")
      case True
      then have "segment_loop clean blocks cur (n # ns) = segment_loop clean blocks cur ns"
        by (simp add: Other)
      then show ?thesis using Cons.IH [OF Cons.prems] by simp
    next
      case False
      then have e: "segment_loop clean blocks cur (n # ns) =
          segment_loop clean blocks (cur @ 32 # strip t) ns"
        by (simp add: Other)
      show ?thesis unfolding e using Cons.prems by (rule Cons.IH)
    qed
  qed
qed

lemma translate_visible:
  assumes "strip s \<noteq> []"
  shows "strip (translate (strip s)) \<noteq> []"
proof -
  let ?f = "\<lambda>c. case map_of REPLACE_CHAR_MAP c of Some t \<Rightarrow> t | None \<Rightarrow> [c]"
  let ?c = "hd (strip s)"
  have c: "\<not> isspace ?c" using strip_edges(1) [OF assms] .
  have "\<exists>x\<in>set (?f ?c). \<not> isspace x"
  proof (cases "map_of REPLACE_CHAR_MAP ?c")
    case None
    then show ?thesis using c by simp
  next
    case (Some t)
    then have "(?c, t) \<in> set REPLACE_CHAR_MAP" by (rule map_of_SomeD)
    then have "?c = 160 \<or> (t \<noteq> [] \<and> (\<forall>x\<in>set t. \<not> isspace x))"
      using replace_targets_visible by blast
    moreover have "?c \<noteq> 160" using c by (auto simp: isspace_def)
    ultimately have "t \<noteq> [] \<and> (\<forall>x\<in>set t. \<not> isspace x)" by simp
    then obtain x where "x \<in> set t" "\<not> isspace x" by (cases t) auto
    then show ?thesis by (auto simp: Some)
  qed
  moreover have "?c \<in> set (strip s)" using assms by simp
  ultimately have "\<exists>x\<in>set (translate (strip s)). \<not> isspace x"
    unfolding translate_def by auto
  then show ?thesis by (simp add: strip_eq_Nil)
qed

text \<open>
  C7, as the specification states it: with no line break among the siblings the single
  block is the trimmed, space-joined visible text itself. In scrape.py the block is that
  text passed through \<^verbatim>\<open>clean_text\<close>: an en dash in the text is a hyphen in the block.
\<close>

theorem C7_segmenter_counterexample:
  "Br \<notin> set [Other (lit ''Fall'' @ [8211] @ lit ''Spring'')] \<and>
   strip (space_join (visible_texts [Other (lit ''Fall'' @ [8211] @ lit ''Spring'')])) =
     lit ''Fall'' @ [8211] @ lit ''Spring'' \<and>
   scrape_segment [Other (lit ''Fall'' @ [8211] @ lit ''Spring'')] = [lit ''Fall-Spring''] \<and>
   lit ''Fall-Spring'' \<noteq> lit ''Fall'' @ [8211] @ lit ''Spring''"
  by (simp add: scrape_segment_def visible_texts_def clean_text_def translate_def
      REPLACE_CHAR_MAP_def lit_def strip_defs)

text \<open>
  C7, amended: for every fragment with no line break among the siblings after the
  separator, segmentation yields exactly one block, or none if the trimmed, space-joined
  visible text of the siblings is empty; in main.py the block is that text, in scrape.py
  it is that text normalized by \<^verbatim>\<open>clean_text\<close>. For every fragment, in both files,
  no emitted block is empty after trimming.
\<close>

theorem C7_segmenter:
  "(Br \<notin> set siblings \<longrightarrow>
      main_segment siblings =
        (if strip (space_join (visible_texts siblings)) = [] then []
         else [strip (space_join (visible_texts siblings))]) \<and>
      scrape_segment siblings =
        (if strip (space_join (visible_texts siblings)) = [] then []
         else [snd (clean_text (strip (space_join (visible_texts siblings))))])) \<and>
   (\<forall>b\<in>set (main_segment fragment). strip b \<noteq> []) \<and>
   (\<forall>b\<in>set (scrape_segment fragment). strip b \<noteq> [])"
proof (intro conjI impI)
  assume "Br \<notin> set siblings"
  then show "main_segment siblings =
        (if strip (space_join (visible_texts siblings)) = [] then []
         else [strip (space_join (visible_texts siblings))])"
    unfolding main_segment_def by (rule segment_no_br)
next
  assume "Br \<notin> set siblings"
  then show "scrape_segment siblings =
        (if strip (space_join (visible_texts siblings)) = [] then []
         else [snd (clean_text (strip (space_join (visible_texts siblings))))])"
    unfolding scrape_segment_def by (rule segment_no_br)
next
  show "\<forall>b\<in>set (main_segment fragment). strip b \<noteq> []"
    unfolding main_segment_def
    by (rule segment_loop_nonempty) (simp_all add: strip_strip)
next
  have "strip (snd (clean_text (strip s))) \<noteq> []" if "strip s \<noteq> []" for s
    using translate_visible [OF that] by (simp add: clean_text_def)
  then show "\<forall>b\<in>set (scrape_segment fragment). strip b \<noteq> []"
    unfolding scrape_segment_def
    by (intro segment_loop_nonempty) simp_all
qed

theorem C7_segmenter_witness:
  "main_segment [Other (lit '' Prerequisite:''), Other (lit ''  ''), Other (lit ''ACCT 101 '')] =
     [lit ''Prerequisite: ACCT 101''] \<and>
   scrape_segment [Other (lit '' Prerequisite:''), Other (lit ''  ''), Other (lit ''ACCT 101 '')] =
     [lit ''Prerequisite: ACCT 101''] \<and>
   main_segment acct_201a_siblings = [lit ''Accounting concepts.'', lit ''Prerequisite: ACCT 101''] \<and>
   strip (lit ''Accounting concepts.'') \<noteq> [] \<and> strip (lit ''Prerequisite: ACCT 101'') \<noteq> []"
proof -
  let ?s = "[Other (lit '' Prerequisite:''), Other (lit ''  ''), Other (lit ''ACCT 101 '')]"
  have b: "Br \<notin> set ?s" by simp
  have v: "strip (space_join (visible_texts ?s)) = lit ''Prerequisite: ACCT 101''"
    by (simp add: visible_texts_def lit_def strip_defs)
  have n: "lit ''Prerequisite: ACCT 101'' \<noteq> []"
    by (simp add: lit_def)
  have t: "snd (clean_text (lit ''Prerequisite: ACCT 101'')) = lit ''Prerequisite: ACCT 101''"
    by (simp add: clean_text_def translate_def REPLACE_CHAR_MAP_def lit_def)
  have m: "main_segment acct_201a_siblings =
      [lit ''Accounting concepts.'', lit ''Prerequisite: ACCT 101'']"
    by (simp add: main_segment_def acct_201a_siblings_def lit_def strip_defs)
  show ?thesis
    using C7_segmenter [of ?s acct_201a_siblings] b n
    by (simp only: v t m) simp
qed

section \<open>Output collection\<close>

declare str_nat.simps [simp del]

lemma str_nat_decimal: "str_nat n \<noteq> [] \<and> (\<forall>c\<in>set (str_nat n). 48 \<le> c \<and> c \<le> 57)"
proof (induction n rule: str_nat.induct)
  case (1 n)
  show ?case
  proof (cases "n < 10")
    case True
    then show ?thesis by (subst (1 2) str_nat.simps) simp
  next
    case False
    have "n mod 10 < 10" by simp
    then have "48 \<le> 48 + n mod 10 \<and> 48 + n mod 10 \<le> 57" by simp
    then show ?thesis using 1 False by (subst (1 2) str_nat.simps) simp
  qed
qed

lemma str_nat_value: "foldl (\<lambda>a c. 10 * a + (c - 48)) 0 (str_nat n) = n"
proof (induction n rule: str_nat.induct)
  case (1 n)
  show ?case
  proof (cases "n < 10")
    case True
    then show ?thesis by (subst str_nat.simps) simp
  next
    case False
    then show ?thesis using 1 by (subst str_nat.simps) simp
  qed
qed

lemma str_nat_inj: "str_nat m = str_nat n \<Longrightarrow> m = n"
  by (metis str_nat_value)

lemma hd_str_nat: "hd (str_nat n) \<noteq> 45"
proof -
  have "48 \<le> hd (str_nat n)"
    using str_nat_decimal [of n] by (cases "str_nat n") auto
  then show ?thesis by simp
qed

lemma str_int_inj: "str_int i = str_int j \<longleftrightarrow> i = j"
proof
  assume e: "str_int i = str_int j"
  show "i = j"
  proof (cases "i < 0"; cases "j < 0")
    assume "i < 0" "j < 0"
    then show ?thesis using e str_nat_inj [of "nat (- i)" "nat (- j)"]
      by (simp add: str_int_def)
  next
    assume "i < 0" "\<not> j < 0"
    then have "45 # str_nat (nat (- i)) = str_nat (nat j)" using e by (simp add: str_int_def)
    then have "hd (str_nat (nat j)) = 45" by (metis list.sel(1))
    then show ?thesis using hd_str_nat by blast
  next
    assume "\<not> i < 0" "j < 0"
    then have "str_nat (nat i) = 45 # str_nat (nat (- j))" using e by (simp add: str_int_def)
    then have "hd (str_nat (nat i)) = 45" by simp
    then show ?thesis using hd_str_nat by blast
  next
    assume "\<not> i < 0" "\<not> j < 0"
    then show ?thesis using e str_nat_inj [of "nat i" "nat j"]
      by (simp add: str_int_def)
  qed
qed simp

lemma last_inserted_snoc:
  "last_inserted (recs @ [(k, c)]) i = (if k = i then Some c else last_inserted recs i)"
  by (cases "filter (\<lambda>(course_id, course). course_id = i) recs")
    (simp_all add: last_inserted_def)

lemma main_insert_apply:
  "main_insert m k c x = (if x = str_int k then Some c else m x)"
  by (simp add: main_insert_def)

lemma insert_all_snoc:
  "insert_all ins courses (recs @ [(k, c)]) = ins (insert_all ins courses recs) k c"
  by (simp add: insert_all_def)

lemma main_insert_all:
  "insert_all main_insert courses recs (str_int i) =
     (case last_inserted recs i of None \<Rightarrow> courses (str_int i) | Some c \<Rightarrow> Some c)"
proof (induction recs rule: rev_induct)
  case Nil
  then show ?case by (simp add: insert_all_def last_inserted_def)
next
  case (snoc r recs)
  obtain k c where r: "r = (k, c)" by (cases r)
  have "insert_all main_insert courses (recs @ [(k, c)]) (str_int i) =
      (if str_int i = str_int k then Some c else insert_all main_insert courses recs (str_int i))"
    unfolding insert_all_snoc by (rule main_insert_apply)
  then show ?case
    unfolding r by (auto simp: snoc last_inserted_snoc str_int_inj)
qed

lemma main_insert_all_dom:
  "dom (insert_all main_insert courses recs) = dom courses \<union> str_int ` fst ` set recs"
proof (induction recs rule: rev_induct)
  case Nil
  then show ?case by (simp add: insert_all_def)
next
  case (snoc r recs)
  obtain k c where r: "r = (k, c)" by (cases r)
  have "insert_all main_insert courses (recs @ [(k, c)]) =
      (insert_all main_insert courses recs)(str_int k \<mapsto> c)"
    unfolding insert_all_snoc by (rule main_insert_def)
  then have "dom (insert_all main_insert courses (recs @ [(k, c)])) =
      insert (str_int k) (dom (insert_all main_insert courses recs))"
    by (simp only: dom_fun_upd) simp
  then show ?case
    unfolding r snoc by auto
qed

lemma scrape_insert_all: "insert_all scrape_insert courses recs = courses @ map snd recs"
proof (induction recs rule: rev_induct)
  case Nil
  then show ?case by (simp add: insert_all_def)
next
  case (snoc r recs)
  obtain k c where r: "r = (k, c)" by (cases r)
  have "insert_all scrape_insert courses (recs @ [(k, c)]) =
      insert_all scrape_insert courses recs @ [c]"
    unfolding insert_all_snoc by (rule scrape_insert_def)
  then show ?case
    unfolding r snoc by simp
qed

text \<open>
  C4, as the specification states it: the output collection maps each identifier to one
  record, the last one inserted, and is not an ordered list. In scrape.py the collection
  is a list and the insertion is \<^verbatim>\<open>append\<close>: two records with the same identifier are
  both kept, in the order inserted.
\<close>

theorem C4_output_collection_counterexample:
  "insert_all scrape_insert []
     [(594896, raw_acct_201a), (594896, raw_acct_201a\<lparr>rc_department := lit ''Business''\<rparr>)] =
     [raw_acct_201a, raw_acct_201a\<lparr>rc_department := lit ''Business''\<rparr>] \<and>
   rc_course_id raw_acct_201a = 594896 \<and>
   rc_course_id (raw_acct_201a\<lparr>rc_department := lit ''Business''\<rparr>) = 594896 \<and>
   raw_acct_201a \<noteq> raw_acct_201a\<lparr>rc_department := lit ''Business''\<rparr>"
  by (simp add: insert_all_def scrape_insert_def raw_acct_201a_def lit_def)

text \<open>
  C4, amended: in main.py, after every sequence of insertions the dictionary maps the key
  \<^verbatim>\<open>str(course_id)\<close> of each inserted identifier to exactly one record, the one last
  inserted with that identifier (a key never inserted keeps what it had), and its keys
  are the old keys and the keys of the inserted identifiers. In scrape.py the collection
  is an ordered list: the records are appended in the order inserted, duplicates of an
  identifier included.
\<close>

theorem C4_output_collection:
  "insert_all main_insert courses recs (str_int i) =
     (case last_inserted recs i of None \<Rightarrow> courses (str_int i) | Some c \<Rightarrow> Some c) \<and>
   dom (insert_all main_insert courses recs) = dom courses \<union> str_int ` fst ` set recs \<and>
   insert_all scrape_insert raw_courses raw_recs = raw_courses @ map snd raw_recs"
  using main_insert_all [of courses recs i] main_insert_all_dom [of courses recs]
    scrape_insert_all [of raw_courses raw_recs]
  by simp

theorem C4_output_collection_witness:
  "insert_all main_insert Map.empty
     [(594896, lit ''first''), (7, lit ''other''), (594896, lit ''second'')] (str_int 594896) =
     Some (lit ''second'') \<and>
   insert_all main_insert Map.empty
     [(594896, lit ''first''), (7, lit ''other''), (594896, lit ''second'')] (str_int 8) = None"
proof -
  have 1: "last_inserted [(594896, lit ''first''), (7, lit ''other''), (594896, lit ''second'')] 594896 =
      Some (lit ''second'')"
    by (simp add: last_inserted_def)
  have 2: "last_inserted [(594896, lit ''first''), (7, lit ''other''), (594896, lit ''second'')] 8 = None"
    by (simp add: last_inserted_def)
  have a: "insert_all main_insert Map.empty
     [(594896, lit ''first''), (7, lit ''other''), (594896, lit ''second'')] (str_int 594896) =
     Some (lit ''second'')"
    using C4_output_collection [of Map.empty
        "[(594896, lit ''first''), (7, lit ''other''), (594896, lit ''second'')]" 594896 "[]" "[]",
        THEN conjunct1]
    unfolding 1 option.case .
  have b: "insert_all main_insert Map.empty
     [(594896, lit ''first''), (7, lit ''other''), (594896, lit ''second'')] (str_int 8) = None"
    using C4_output_collection [of Map.empty
        "[(594896, lit ''first''), (7, lit ''other''), (594896, lit ''second'')]" 8 "[]" "[]",
        THEN conjunct1]
    unfolding 2 option.case .
  show ?thesis
    using a b by (rule conjI)
qed

section \<open>Row alignment\<close>

lemma loop_rows_zip:
  "loop_rows info ins sec es us cs =
     (case walk_pairs info ins sec (zip es us) cs of
        (None, cs') \<Rightarrow> (if length es = length us then None else Some ValueError, cs')
      | (Some err, cs') \<Rightarrow> (Some err, cs'))"
  by (induction info ins sec es us cs rule: loop_rows.induct)
    (simp_all split: sum.splits)

lemma loop_rows_unequal:
  "length es \<noteq> length us \<Longrightarrow> fst (loop_rows info ins sec es us cs) \<noteq> None"
  by (simp add: loop_rows_zip split: prod.splits option.splits)

lemma id_594896:
  "get_course_id (Some (Some (lit ''preview_course_nopop.php?catoid=95&coid=594896''))) = Inr 594896"
  by (simp add: get_course_id_def split_str_def lit_def startswith_def py_int_def int_strip_def
      int_isspace_def isspace_def isdecimal_def decimal_value_ascii int_max_str_digits_def Let_def)

lemma info_acct_201a:
  "scrape_get_course_info (e_cell acct_201a_row) 594896 (lit ''Accounting'') = Inr raw_acct_201a"
  by (simp add: scrape_get_course_info_def acct_201a_row_def raw_acct_201a_def scrape_segment_def
      clean_text_def translate_def REPLACE_CHAR_MAP_def lit_def strip_defs)

text \<open>
  C5, as the specification states it: a page whose row sequences differ in length raises
  and emits no record. \<^verbatim>\<open>zip(..., strict=True)\<close> raises only once the shorter sequence
  is exhausted, and the loop inserts into the shared collection as it goes: the records
  of the row pairs before that are already in the collection, and stay there.
\<close>

theorem C5_alignment_counterexample:
  "length [accounting_header_row, acct_201a_row] \<noteq>
     length [unexpanded_header_row, acct_201a_link_row, unexpanded_header_row] \<and>
   scrape_loop_through_courses [accounting_header_row, acct_201a_row]
     [unexpanded_header_row, acct_201a_link_row, unexpanded_header_row] [] =
     (Some ValueError, [raw_acct_201a])"
proof -
  have s: "strip (lit '' Accounting '') = lit ''Accounting''"
    by (simp add: lit_def strip_defs)
  have h: "e_td_count accounting_header_row = 1" "e_strong accounting_header_row = Some (lit '' Accounting '')"
    "u_td_count unexpanded_header_row = 1"
    by (simp_all add: accounting_header_row_def unexpanded_header_row_def)
  have c: "e_td_count acct_201a_row = 2" "u_td_count acct_201a_link_row = 2"
    "u_anchor acct_201a_link_row = Some (Some (lit ''preview_course_nopop.php?catoid=95&coid=594896''))"
    by (simp_all add: acct_201a_row_def acct_201a_link_row_def)
  show ?thesis
    by (simp add: scrape_loop_through_courses_def h c s id_594896 info_acct_201a scrape_insert_def)
qed

text \<open>
  C5, amended: \<^verbatim>\<open>loop_through_courses\<close> walks the row pairs \<open>zip es us\<close> pairwise in
  document order, inserting each record as it is produced; if that walk raises, the
  exception ends the page; otherwise, when the two sequences differ in length,
  \<^verbatim>\<open>ValueError\<close> is raised after the last pair. In both cases the records inserted before
  the exception remain in the collection. So a page with sequences of unequal length
  always raises, in main.py and in scrape.py.
\<close>

theorem C5_alignment:
  "loop_rows info ins sec es us cs =
     (case walk_pairs info ins sec (zip es us) cs of
        (None, cs') \<Rightarrow> (if length es = length us then None else Some ValueError, cs')
      | (Some err, cs') \<Rightarrow> (Some err, cs')) \<and>
   (length es \<noteq> length us \<longrightarrow>
      fst (main_loop_through_courses es us courses) \<noteq> None \<and>
      fst (scrape_loop_through_courses es us raw_courses) \<noteq> None)"
  using loop_rows_zip [of info ins sec es us cs]
    loop_rows_unequal [of es us _ main_insert "[]" courses]
    loop_rows_unequal [of es us scrape_get_course_info scrape_insert "[]" raw_courses]
  by (simp add: main_loop_through_courses_def scrape_loop_through_courses_def)

theorem C5_alignment_witness:
  "fst (main_loop_through_courses [accounting_header_row] [] Map.empty) \<noteq> None \<and>
   fst (scrape_loop_through_courses [accounting_header_row] [] []) \<noteq> None"
proof -
  have "length [accounting_header_row] \<noteq> length ([] :: unexpanded_row list)"
    by simp
  then show ?thesis
    using C5_alignment [where es = "[accounting_header_row]" and us = "[]"
        and courses = Map.empty and raw_courses = "[]", THEN conjunct2]
    by blast
qed

end
